theory Spec2Isabelle
  imports Complex_Main "HOL-Library.Log_Nat"
begin

section \<open>JavaScript strings\<close>

text \<open>
  A string is the list of its code units, and the type of characters holds the 256 code
  units of Latin-1: the model covers the strings all of whose code units are below 256,
  every ASCII string among them. On this range white space and the case mappings are
  those of JavaScript.

  White space, as \<open>trim\<close> and \<open>parseInt\<close> strip it: tab, line feed, vertical tab, form
  feed, carriage return, space and the no-break space U+00A0.
\<close>

definition is_ws :: "char \<Rightarrow> bool" where
  "is_ws c = (c \<in> set [CHR 0x09, CHR 0x0A, CHR 0x0B, CHR 0x0C, CHR 0x0D, CHR 0x20, CHR 0xA0])"

definition trim :: "string \<Rightarrow> string" where
  "trim s = rev (dropWhile is_ws (rev (dropWhile is_ws s)))"

definition upper_letters :: string where
  "upper_letters = ''ABCDEFGHIJKLMNOPQRSTUVWXYZ''"

definition lower_letters :: string where
  "lower_letters = ''abcdefghijklmnopqrstuvwxyz''"

definition digit_chars :: string where
  "digit_chars = ''0123456789''"

text \<open>
  The cased letters of Latin-1 beyond ASCII: U+00C0 to U+00DE without the multiplication
  sign U+00D7, and U+00E0 to U+00FE without the division sign U+00F7.
\<close>

definition latin_upper :: string where
  "latin_upper =
     [CHR 0xC0, CHR 0xC1, CHR 0xC2, CHR 0xC3, CHR 0xC4, CHR 0xC5, CHR 0xC6, CHR 0xC7,
      CHR 0xC8, CHR 0xC9, CHR 0xCA, CHR 0xCB, CHR 0xCC, CHR 0xCD, CHR 0xCE, CHR 0xCF,
      CHR 0xD0, CHR 0xD1, CHR 0xD2, CHR 0xD3, CHR 0xD4, CHR 0xD5, CHR 0xD6,
      CHR 0xD8, CHR 0xD9, CHR 0xDA, CHR 0xDB, CHR 0xDC, CHR 0xDD, CHR 0xDE]"

definition latin_lower :: string where
  "latin_lower =
     [CHR 0xE0, CHR 0xE1, CHR 0xE2, CHR 0xE3, CHR 0xE4, CHR 0xE5, CHR 0xE6, CHR 0xE7,
      CHR 0xE8, CHR 0xE9, CHR 0xEA, CHR 0xEB, CHR 0xEC, CHR 0xED, CHR 0xEE, CHR 0xEF,
      CHR 0xF0, CHR 0xF1, CHR 0xF2, CHR 0xF3, CHR 0xF4, CHR 0xF5, CHR 0xF6,
      CHR 0xF8, CHR 0xF9, CHR 0xFA, CHR 0xFB, CHR 0xFC, CHR 0xFD, CHR 0xFE]"

definition lower_char :: "char \<Rightarrow> char" where
  "lower_char c =
     (case map_of (zip (upper_letters @ latin_upper) (lower_letters @ latin_lower)) c of
        Some d \<Rightarrow> d | None \<Rightarrow> c)"

definition upper_char :: "char \<Rightarrow> char" where
  "upper_char c =
     (case map_of (zip (lower_letters @ latin_lower) (upper_letters @ latin_upper)) c of
        Some d \<Rightarrow> d | None \<Rightarrow> c)"

definition toLowerCase :: "string \<Rightarrow> string" where
  "toLowerCase s = map lower_char s"

text \<open>
  \<open>toUpperCase\<close> writes the sharp s U+00DF as \<open>SS\<close>. The upper-case forms of the micro
  sign U+00B5 and of U+00FF lie outside Latin-1 (U+039C and U+0178): the model leaves these
  two letters as they are, and \<open>upper_in_latin1\<close> holds of the strings without them,
  whose upper-case form is the one of JavaScript.
\<close>

definition upper_chars :: "char \<Rightarrow> string" where
  "upper_chars c = (if c = CHR 0xDF then ''SS'' else [upper_char c])"

definition toUpperCase :: "string \<Rightarrow> string" where
  "toUpperCase s = concat (map upper_chars s)"

definition upper_in_latin1 :: "string \<Rightarrow> bool" where
  "upper_in_latin1 s = (CHR 0xB5 \<notin> set s \<and> CHR 0xFF \<notin> set s)"

section \<open>JavaScript numbers\<close>

text \<open>
  A JavaScript number is an IEEE 754 double. The finite doubles are modelled as the reals
  they denote, and an arithmetic operation on prices and ratios (\<open>fadd\<close>, \<open>fsub\<close>,
  \<open>fmul\<close>, \<open>fdiv\<close>) rounds its exact result to the nearest double, a tie going to the
  even significand. The two zeros are one number here (the source never divides by a
  zero), \<open>NaN\<close> is \<open>None\<close> where it can arise, and overflow to an infinity is not
  represented: the theorems that depend on arithmetic bound their inputs so that no
  result reaches \<open>2^1024\<close>. Times in milliseconds and counts are integers and are
  computed exactly, as doubles are below \<open>2^53\<close>; the one place where the handler can
  exceed that is discussed with the time stamps of the synthetic series.

  \<open>rne\<close> rounds a real to the nearest integer, a tie going to the even one.
\<close>

definition rne :: "real \<Rightarrow> int" where
  "rne y =
     (let n = \<lfloor>y\<rfloor>; r = y - of_int n
      in if r < 1 / 2 then n else if 1 / 2 < r then n + 1 else if even n then n else n + 1)"

text \<open>
  The binary exponent of a non-zero real: \<open>2^(binade x) \<le> \<bar>x\<bar> < 2^(binade x + 1)\<close>.
\<close>

definition binade :: "real \<Rightarrow> int" where
  "binade x =
     (if 1 \<le> \<bar>x\<bar> then bitlen \<lfloor>\<bar>x\<bar>\<rfloor> - 1 else - bitlen (\<lceil>1 / \<bar>x\<bar>\<rceil> - 1))"

text \<open>
  The spacing of the doubles around \<open>x\<close>: 52 binary places below the leading one, and
  \<open>2^-1074\<close> throughout the subnormal range.
\<close>

definition ulp :: "real \<Rightarrow> real" where
  "ulp x = 2 powi (max (binade x) (- 1022) - 52)"

text \<open>The double nearest to a real.\<close>

definition rd :: "real \<Rightarrow> real" where
  "rd x = of_int (rne (x / ulp x)) * ulp x"

definition fadd :: "real \<Rightarrow> real \<Rightarrow> real" where
  "fadd x y = rd (x + y)"

definition fsub :: "real \<Rightarrow> real \<Rightarrow> real" where
  "fsub x y = rd (x - y)"

definition fmul :: "real \<Rightarrow> real \<Rightarrow> real" where
  "fmul x y = rd (x * y)"

definition fdiv :: "real \<Rightarrow> real \<Rightarrow> real" where
  "fdiv x y = rd (x / y)"

text \<open>
  From this value on a real rounds to \<open>Infinity\<close>, which \<open>Number.isFinite\<close> rejects.
\<close>

definition double_overflow :: int where
  "double_overflow = 2 ^ 1024 - 2 ^ 970"

text \<open>
  \<open>Number(x.toFixed(d))\<close>. \<open>toFixed\<close> prints the multiple of \<open>10^-d\<close> nearest to the
  exact value of the double \<open>x\<close>, the larger one of two that are equally near to \<open>\<bar>x\<bar>\<close>,
  and \<open>Number\<close> reads the digits back as the nearest double; from \<open>10^21\<close> on \<open>toFixed\<close>
  prints the number itself.
\<close>

definition toFixed :: "nat \<Rightarrow> real \<Rightarrow> real" where
  "toFixed d x =
     (if \<bar>x\<bar> \<ge> 10 ^ 21 then x
      else rd (sgn x * of_int \<lfloor>\<bar>x\<bar> * 10 ^ d + 1 / 2\<rfloor> / 10 ^ d))"

section \<open>utils/mock-tiingo.js: kind aliases\<close>

text \<open>
  \<open>KIND_ALIASES\<close> is an object literal, so \<open>KIND_ALIASES[key]\<close> also finds the
  members every object inherits from \<open>Object.prototype\<close>; all of them are functions or
  objects, hence truthy. A lookup therefore yields an own string, an inherited member,
  or \<open>undefined\<close>.
\<close>

datatype looked = Str string | Inherited string

definition Object_prototype_keys :: "string list" where
  "Object_prototype_keys =
     [''constructor'', ''__defineGetter__'', ''__defineSetter__'', ''hasOwnProperty'',
      ''__lookupGetter__'', ''__lookupSetter__'', ''isPrototypeOf'', ''propertyIsEnumerable'',
      ''toString'', ''valueOf'', ''__proto__'', ''toLocaleString'']"

definition object_get :: "(string \<times> string) list \<Rightarrow> string \<Rightarrow> looked option" where
  "object_get obj key =
     (case map_of obj key of
        Some v \<Rightarrow> Some (Str v)
      | None \<Rightarrow> if key \<in> set Object_prototype_keys then Some (Inherited key) else None)"

definition KIND_ALIASES :: "(string \<times> string) list" where
  "KIND_ALIASES =
     [(''quote'', ''intraday_latest''),
      (''quotes'', ''intraday_latest''),
      (''intraday_latest'', ''intraday_latest''),
      (''intraday'', ''intraday''),
      (''eod'', ''eod''),
      (''news'', ''news''),
      (''documents'', ''documents''),
      (''filings'', ''filings''),
      (''actions'', ''actions''),
      (''fundamentals'', ''fundamentals''),
      (''statements'', ''statements''),
      (''overview'', ''overview''),
      (''valuation'', ''valuation'')]"

text \<open>
  \<open>normaliseKind\<close> of utils/mock-tiingo.js. The argument is \<open>None\<close> for an absent
  (undefined) kind; \<open>kind || 'eod'\<close> also replaces the empty string.
\<close>

definition normaliseKind_mock :: "string option \<Rightarrow> looked" where
  "normaliseKind_mock kind =
     (let key = toLowerCase (case kind of None \<Rightarrow> ''eod'' | Some k \<Rightarrow> if k = [] then ''eod'' else k)
      in case object_get KIND_ALIASES key of
           Some (Str v) \<Rightarrow> if v = [] then Str ''eod'' else Str v
         | Some (Inherited m) \<Rightarrow> Inherited m
         | None \<Rightarrow> Str ''eod'')"

section \<open>The request handler's kind normalisation\<close>

text \<open>
  \<open>normaliseKind\<close> of the request handler (the file that defines
  \<open>generateFallbackQuote\<close>): trim, lower-case, and default to \<open>intraday_latest\<close>.
  There is no alias table here.
\<close>

definition normaliseKind_handler :: "string option \<Rightarrow> string" where
  "normaliseKind_handler kind =
     (let v = toLowerCase (trim (case kind of None \<Rightarrow> [] | Some k \<Rightarrow> k))
      in if v = [] then ''intraday_latest'' else v)"

section \<open>JSON values as JavaScript sees them\<close>

text \<open>
  A parsed JSON payload. An object is an association list whose first binding of a key
  counts. The member names the source reads from payloads (\<open>last\<close>, \<open>open\<close>,
  \<open>metrics\<close>, ...) are never members of \<open>Object.prototype\<close>, \<open>Array.prototype\<close>
  or \<open>String.prototype\<close>, so reading them from anything but an object with that own
  key gives \<open>undefined\<close>. \<open>JNum x\<close> is the number whose decimal notation in the payload
  has the value \<open>x\<close>, below the overflow threshold: the number itself is the double
  \<open>rd x\<close>.
\<close>

datatype js = JUndefined | JNull | JBool bool | JNum real | JStr string
  | JArr "js list" | JObj "(string \<times> js) list"

fun get_prop :: "js \<Rightarrow> string \<Rightarrow> js" where
  "get_prop (JObj kvs) name = (case map_of kvs name of Some v \<Rightarrow> v | None \<Rightarrow> JUndefined)"
| "get_prop _ name = JUndefined"

fun truthy :: "js \<Rightarrow> bool" where
  "truthy JUndefined = False"
| "truthy JNull = False"
| "truthy (JBool b) = b"
| "truthy (JNum x) = (rd x \<noteq> 0)"
| "truthy (JStr s) = (s \<noteq> [])"
| "truthy (JArr xs) = True"
| "truthy (JObj kvs) = True"

fun nullish :: "js \<Rightarrow> bool" where
  "nullish JUndefined = True"
| "nullish JNull = True"
| "nullish _ = False"

text \<open>\<open>a ?? b\<close> and \<open>a || b\<close> on values.\<close>

definition coalesce :: "js \<Rightarrow> js \<Rightarrow> js" where
  "coalesce a b = (if nullish a then b else a)"

definition or_else :: "js \<Rightarrow> js \<Rightarrow> js" where
  "or_else a b = (if truthy a then a else b)"

text \<open>
  \<open>Number(v)\<close>: \<open>None\<close> stands for \<open>NaN\<close>. The conversion of strings, arrays and
  objects (\<open>ToPrimitive\<close>, then the string-to-number grammar) is not modelled; it is the
  parameter \<open>coerce\<close>, which yields a finite double or \<open>NaN\<close>, and every theorem holds for
  every such parameter.
\<close>

type_synonym coercion = "js \<Rightarrow> real option"

fun ToNumber :: "coercion \<Rightarrow> js \<Rightarrow> real option" where
  "ToNumber coerce JUndefined = None"
| "ToNumber coerce JNull = Some 0"
| "ToNumber coerce (JBool b) = Some (if b then 1 else 0)"
| "ToNumber coerce (JNum x) = Some (rd x)"
| "ToNumber coerce v = coerce v"

section \<open>utils/mock-tiingo.js: the valuation snapshot\<close>

definition is_object :: "js \<Rightarrow> bool" where
  "is_object v = (case v of JArr _ \<Rightarrow> True | JObj _ \<Rightarrow> True | _ \<Rightarrow> False)"

text \<open>
  \<open>getLatestQuote\<close>: the record's \<open>quote\<close> object, else the last element of
  \<open>intraday\<close>, else the last element of \<open>eod\<close>, else \<open>null\<close>.
\<close>

definition getLatestQuote :: "js \<Rightarrow> js" where
  "getLatestQuote record =
     (if \<not> truthy record \<or> \<not> is_object record then JNull
      else if truthy (get_prop record ''quote'') \<and> is_object (get_prop record ''quote'')
        then get_prop record ''quote''
      else case get_prop record ''intraday'' of
             JArr (x # xs) \<Rightarrow> last (x # xs)
           | _ \<Rightarrow> (case get_prop record ''eod'' of
                      JArr (y # ys) \<Rightarrow> last (y # ys)
                    | _ \<Rightarrow> JNull))"

text \<open>\<open>Number(v) || null\<close> and \<open>Number(v) || 0\<close>.\<close>

definition number_or_null :: "coercion \<Rightarrow> js \<Rightarrow> real option" where
  "number_or_null coerce v =
     (case ToNumber coerce v of None \<Rightarrow> None | Some x \<Rightarrow> if x = 0 then None else Some x)"

definition number_or_zero :: "coercion \<Rightarrow> js \<Rightarrow> real" where
  "number_or_zero coerce v = (case ToNumber coerce v of None \<Rightarrow> 0 | Some x \<Rightarrow> x)"



text \<open>The constants of \<open>computeValuationSnapshot\<close>, one definition each.\<close>

definition snapshot_quote :: "js \<Rightarrow> js" where
  "snapshot_quote record = or_else (getLatestQuote record) (JObj [])"

definition snapshot_fundamentals :: "js \<Rightarrow> js" where
  "snapshot_fundamentals record = or_else (get_prop record ''fundamentals'') JNull"

definition snapshot_metrics :: "js \<Rightarrow> js" where
  "snapshot_metrics record = or_else (get_prop (snapshot_fundamentals record) ''metrics'') (JObj [])"

definition snapshot_price :: "coercion \<Rightarrow> js \<Rightarrow> real option" where
  "snapshot_price coerce record =
     (let quote = snapshot_quote record
      in number_or_null coerce
           (coalesce (get_prop quote ''price'')
              (coalesce (get_prop quote ''last'') (coalesce (get_prop quote ''close'') (JNum 0)))))"

definition snapshot_eps :: "coercion \<Rightarrow> js \<Rightarrow> real" where
  "snapshot_eps coerce record =
     (let metrics = snapshot_metrics record; fundamentals = snapshot_fundamentals record
      in number_or_zero coerce
           (coalesce (get_prop metrics ''earningsPerShare'')
              (coalesce (get_prop metrics ''eps'')
                 (coalesce (get_prop (get_prop fundamentals ''latest'') ''eps'') (JNum 0)))))"

definition snapshot_revenuePerShare :: "coercion \<Rightarrow> js \<Rightarrow> real option" where
  "snapshot_revenuePerShare coerce record =
     number_or_null coerce (coalesce (get_prop (snapshot_metrics record) ''revenuePerShare'') (JNum 0))"

definition snapshot_bookValuePerShare :: "coercion \<Rightarrow> js \<Rightarrow> real" where
  "snapshot_bookValuePerShare coerce record =
     (let metrics = snapshot_metrics record; fundamentals = snapshot_fundamentals record
      in number_or_zero coerce
           (coalesce (get_prop metrics ''bookValuePerShare'')
              (coalesce (get_prop (get_prop fundamentals ''latest'') ''bookValuePerShare'') (JNum 0))))"

definition snapshot_fcfPerShare :: "coercion \<Rightarrow> js \<Rightarrow> real option" where
  "snapshot_fcfPerShare coerce record =
     number_or_null coerce (coalesce (get_prop (snapshot_metrics record) ''freeCashFlowPerShare'') (JNum 0))"








section \<open>The request handler: symbols, quotes and synthetic data\<close>

text \<open>
  The functions of the file that exports the degrade-gracefully \<open>handler\<close>
  (it imports its loaders from \<open>./tiingo-data.js\<close>).
\<close>

fun str_includes :: "string \<Rightarrow> string \<Rightarrow> bool" where
  "str_includes [] t = (t = [])"
| "str_includes (c # cs) t = (take (length t) (c # cs) = t \<or> str_includes cs t)"

definition endsWith :: "string \<Rightarrow> string \<Rightarrow> bool" where
  "endsWith s t = (length t \<le> length s \<and> drop (length s - length t) s = t)"

text \<open>The prices of \<open>BASE_PRICE_MAP\<close> are the doubles nearest to the literals.\<close>

definition BASE_PRICE_MAP :: "(string \<times> real) list" where
  "BASE_PRICE_MAP =
     map (\<lambda>(key, literal). (key, rd literal))
     [(''AAPL'', 258), (''MSFT'', 415), (''GOOGL'', 167), (''TSLA'', 240),
      (''WOW'', 2655 / 100), (''WOW.AX'', 2655 / 100),
      (''CBA'', 1305 / 10), (''CBA.AX'', 1305 / 10),
      (''BHP'', 428 / 10), (''BHP.AX'', 428 / 10),
      (''CSL'', 280), (''CSL.AX'', 280),
      (''WES'', 523 / 10), (''WES.AX'', 523 / 10),
      (''ANZ'', 2945 / 100), (''ANZ.AX'', 2945 / 100),
      (''NAB'', 372 / 10), (''NAB.AX'', 372 / 10),
      (''WBC'', 268 / 10), (''WBC.AX'', 268 / 10),
      (''RIO'', 1185 / 10), (''RIO.AX'', 1185 / 10),
      (''TLS'', 412 / 100), (''TLS.AX'', 412 / 100),
      (''DEFAULT'', 100)]"

definition ASX_SYMBOL_MAP :: "(string \<times> string) list" where
  "ASX_SYMBOL_MAP =
     [(''WOW'', ''WOW.AX''), (''CBA'', ''CBA.AX''), (''BHP'', ''BHP.AX''), (''CSL'', ''CSL.AX''),
      (''WES'', ''WES.AX''), (''ANZ'', ''ANZ.AX''), (''NAB'', ''NAB.AX''), (''WBC'', ''WBC.AX''),
      (''RIO'', ''RIO.AX''), (''TLS'', ''TLS.AX'')]"

text \<open>
  Both tables are read with upper-cased keys only, and every member name of
  \<open>Object.prototype\<close> has a lower-case letter, so these lookups never reach an
  inherited member: \<open>map_of\<close> is the whole lookup.
\<close>

definition ensureNumber :: "coercion \<Rightarrow> js \<Rightarrow> real \<Rightarrow> real" where
  "ensureNumber coerce v fallback = (case ToNumber coerce v of Some x \<Rightarrow> x | None \<Rightarrow> fallback)"

definition previewToken :: "string option \<Rightarrow> string" where
  "previewToken token =
     (case token of
        None \<Rightarrow> []
      | Some t \<Rightarrow>
          if t = [] then []
          else let trimmed = trim t
               in if trimmed = [] then []
                  else if length trimmed \<le> 4 then trimmed
                  else take 4 trimmed @ ''***'')"

definition mapSymbolForAPI :: "string \<Rightarrow> string" where
  "mapSymbolForAPI symbol =
     (let raw = trim symbol
      in if raw = [] then []
         else let upper = toUpperCase raw
              in if str_includes upper ''.AX'' then upper
                 else (case map_of ASX_SYMBOL_MAP upper of Some m \<Rightarrow> m | None \<Rightarrow> upper))"

definition detectCurrency :: "string \<Rightarrow> string" where
  "detectCurrency symbol =
     (let upper = toUpperCase symbol
      in if endsWith upper ''.AX'' then ''AUD''
         else if endsWith upper ''.L'' \<or> str_includes upper ''.LON'' then ''GBP''
         else if endsWith upper ''.TO'' \<or> endsWith upper ''.TSE'' then ''CAD''
         else ''USD'')"

definition detectExchange :: "string \<Rightarrow> string" where
  "detectExchange symbol =
     (let upper = toUpperCase symbol
      in if endsWith upper ''.AX'' then ''ASX''
         else if endsWith upper ''.L'' \<or> str_includes upper ''.LON'' then ''LSE''
         else if endsWith upper ''.TO'' \<or> endsWith upper ''.TSE'' then ''TSE''
         else ''NASDAQ/NYSE'')"

text \<open>
  A time stamp of the output: a value the provider sent, or the ISO rendering of a time
  value (milliseconds since the epoch), whole or cut to its date. The rendering itself is
  not modelled.
\<close>

datatype stamp = Provided js | IsoTime int | IsoDay int

record quote =
  q_symbol :: string
  q_last :: real
  q_close :: real
  q_price :: real
  q_prevClose :: real
  q_previousClose :: real
  q_open :: real
  q_high :: real
  q_low :: real
  q_volume :: real
  q_change :: real
  q_changePercent :: real
  q_exchange :: string
  q_exchangeCode :: string
  q_currency :: string
  q_timestamp :: stamp
  q_source :: "string option"

definition buildQuoteFromTiingo :: "coercion \<Rightarrow> int \<Rightarrow> js \<Rightarrow> string \<Rightarrow> string \<Rightarrow> quote" where
  "buildQuoteFromTiingo coerce now quote mappedSymbol originalSymbol =
     (let last = ensureNumber coerce (coalesce (get_prop quote ''last'') (get_prop quote ''tngoLast'')) 0;
          prevClose = ensureNumber coerce (get_prop quote ''prevClose'') last;
          opn = ensureNumber coerce (get_prop quote ''open'') last;
          high = ensureNumber coerce (get_prop quote ''high'') (max opn last);
          low = ensureNumber coerce (get_prop quote ''low'') (min opn last);
          change = fsub last prevClose;
          changePercent = (if prevClose \<noteq> 0 then fmul (fdiv change prevClose) 100 else 0);
          timestamp =
            (if truthy (get_prop quote ''timestamp'') then Provided (get_prop quote ''timestamp'')
             else if truthy (get_prop quote ''lastSaleTimestamp'')
               then Provided (get_prop quote ''lastSaleTimestamp'')
             else IsoTime now);
          exchange = detectExchange mappedSymbol;
          currency = detectCurrency mappedSymbol
      in \<lparr> q_symbol = toUpperCase originalSymbol,
           q_last = last, q_close = last, q_price = last,
           q_prevClose = prevClose, q_previousClose = prevClose,
           q_open = opn, q_high = high, q_low = low,
           q_volume = ensureNumber coerce (get_prop quote ''volume'') 0,
           q_change = change, q_changePercent = changePercent,
           q_exchange = exchange, q_exchangeCode = exchange, q_currency = currency,
           q_timestamp = timestamp, q_source = None \<rparr>)"

text \<open>
  \<open>Math.random()\<close> is the parameter \<open>rnd\<close>: \<open>rnd i\<close> is what the \<open>i\<close>-th call of one
  invocation returns, a double in \<open>[0, 1)\<close>.
\<close>

definition unit_interval :: "(nat \<Rightarrow> real) \<Rightarrow> bool" where
  "unit_interval rnd = (\<forall>i. 0 \<le> rnd i \<and> rnd i < 1)"

definition base_price :: "string \<Rightarrow> string \<Rightarrow> real" where
  "base_price originalSymbol mappedSymbol =
     (let key = toUpperCase
            (if mappedSymbol \<noteq> [] then mappedSymbol
             else if originalSymbol \<noteq> [] then originalSymbol else ''DEFAULT'')
      in case map_of BASE_PRICE_MAP key of Some p \<Rightarrow> p | None \<Rightarrow> 100)"

definition generateFallbackQuote :: "(nat \<Rightarrow> real) \<Rightarrow> int \<Rightarrow> string \<Rightarrow> string \<Rightarrow> quote" where
  "generateFallbackQuote rnd now originalSymbol mappedSymbol =
     (let base = base_price originalSymbol mappedSymbol;
          last = toFixed 2 (fmul base (fadd (rd (99 / 100)) (fmul (rnd 0) (rd (2 / 100)))));
          prevClose = toFixed 2 (fmul last (fadd (rd (995 / 1000)) (fmul (rnd 1) (rd (1 / 100)))));
          opn = toFixed 2 (fmul last (fadd (rd (995 / 1000)) (fmul (rnd 2) (rd (1 / 100)))));
          high = toFixed 2 (fmul (max opn last) (fadd 1 (fmul (rnd 3) (rd (1 / 100)))));
          low = toFixed 2 (fmul (min opn last) (fsub 1 (fmul (rnd 4) (rd (1 / 100)))));
          change = toFixed 2 (fsub last prevClose);
          changePercent =
            (if prevClose \<noteq> 0 then toFixed 2 (fmul (fdiv change prevClose) 100) else 0);
          exchange = detectExchange mappedSymbol;
          currency = detectCurrency mappedSymbol
      in \<lparr> q_symbol = toUpperCase originalSymbol,
           q_last = last, q_close = last, q_price = last,
           q_prevClose = prevClose, q_previousClose = prevClose,
           q_open = opn, q_high = high, q_low = low,
           q_volume = of_int \<lfloor>fmul (rnd 5) 1500000\<rfloor> + 250000,
           q_change = change, q_changePercent = changePercent,
           q_exchange = exchange, q_exchangeCode = exchange, q_currency = currency,
           q_timestamp = IsoTime now, q_source = Some ''fallback'' \<rparr>)"

text \<open>
  A provider quote whose high lies below, and whose low lies above, its last price; and
  one that only carries its last price.
\<close>

definition crossed_quote :: js where
  "crossed_quote =
     JObj [(''last'', JNum 10), (''open'', JNum 10), (''high'', JNum 5), (''low'', JNum 20)]"

definition bare_quote :: js where
  "bare_quote = JObj [(''last'', JNum 10)]"

section \<open>netlify/functions/lib/env.js: credential resolution\<close>

definition TIINGO_TOKEN_ENV_KEYS :: "string list" where
  "TIINGO_TOKEN_ENV_KEYS =
     [''TIINGO_KEY'', ''TIINGO_API_KEY'', ''TIINGO_API_TOKEN'', ''TIINGO_TOKEN'',
      ''TIINGO_ACCESS_TOKEN'', ''TIINGO_ACCESS_KEY'', ''TIINGO_AUTH_TOKEN'', ''TIINGO_SECRET'',
      ''TIINGO_API_SECRET'', ''REACT_APP_TIINGO_KEY'', ''REACT_APP_TIINGO_TOKEN'',
      ''REACT_APP_API_KEY'', ''VITE_TIINGO_KEY'', ''VITE_TIINGO_TOKEN'', ''VITE_APP_TIINGO_KEY'',
      ''VITE_APP_TIINGO_TOKEN'']"

text \<open>
  The environment is the list of \<open>process.env\<close>'s entries in enumeration order; every
  value is a string and a name is bound once.
\<close>

type_synonym environment = "(string \<times> string) list"

definition readEnvValue :: "environment \<Rightarrow> string \<Rightarrow> string" where
  "readEnvValue env key = (case map_of env key of None \<Rightarrow> [] | Some raw \<Rightarrow> trim raw)"

definition disallowedLiterals :: "string \<Rightarrow> bool" where
  "disallowedLiterals s =
     (toLowerCase s \<in> set [''true'', ''false'', ''null'', ''undefined'', ''yes'', ''no'', ''0'', ''1''])"

definition is_alnum :: "char \<Rightarrow> bool" where
  "is_alnum c = (c \<in> set (lower_letters @ upper_letters @ digit_chars))"

text \<open>The character class \<open>[a-z0-9_-]\<close> under the \<open>i\<close> flag.\<close>

definition is_token_char :: "char \<Rightarrow> bool" where
  "is_token_char c = (is_alnum c \<or> c = CHR ''_'' \<or> c = CHR ''-'')"

text \<open>
  \<open>trimmed.split(/[^a-z0-9_-]+/i)\<close>. The model cuts at every separator character, so
  two adjacent separators leave an empty part between them where JavaScript leaves none;
  the loop over the parts skips empty parts, hence sees the same parts in the same order.
\<close>

fun split_runs :: "string \<Rightarrow> string list" where
  "split_runs [] = [[]]"
| "split_runs (c # cs) =
     (if is_token_char c
      then (case split_runs cs of [] \<Rightarrow> [[c]] | r # rs \<Rightarrow> (c # r) # rs)
      else [] # split_runs cs)"

text \<open>
  \<open>tokenChunkPattern\<close>, \<open>/[a-z0-9][a-z0-9_-]{22,}[a-z0-9]/i\<close>, tried at the head of a
  string: an alphanumeric character, then the longest stretch of token characters that
  ends in an alphanumeric one and is at least 23 long (the quantifier is greedy and backs
  off over trailing \<open>-\<close> and \<open>_\<close>). \<open>chunk_match\<close> is the leftmost match.
\<close>

fun chunk_at :: "string \<Rightarrow> string option" where
  "chunk_at [] = None"
| "chunk_at (c # cs) =
     (if is_alnum c
      then (let run = rev (dropWhile (\<lambda>d. \<not> is_alnum d) (rev (takeWhile is_token_char cs)))
            in if 23 \<le> length run then Some (c # run) else None)
      else None)"

fun chunk_match :: "string \<Rightarrow> string option" where
  "chunk_match [] = None"
| "chunk_match (c # cs) =
     (case chunk_at (c # cs) of Some m \<Rightarrow> Some m | None \<Rightarrow> chunk_match cs)"

definition extractTokenCandidate :: "string \<Rightarrow> string" where
  "extractTokenCandidate v =
     (let trimmed = trim v
      in if trimmed = [] \<or> disallowedLiterals trimmed then []
         else if 24 \<le> length trimmed \<and> length trimmed \<le> 128 \<and> list_all is_token_char trimmed
           then trimmed
         else (case find (\<lambda>part. part \<noteq> [] \<and> 24 \<le> length part \<and> length part \<le> 128
                                  \<and> list_all is_token_char part) (split_runs trimmed) of
                 Some part \<Rightarrow> part
               | None \<Rightarrow> (case chunk_match trimmed of Some m \<Rightarrow> m | None \<Rightarrow> [])))"

record detail =
  d_key :: string
  d_token :: string
  d_source :: string

definition buildDetail :: "string \<Rightarrow> string \<Rightarrow> string \<Rightarrow> detail option" where
  "buildDetail key v source =
     (let token = extractTokenCandidate v
      in if token \<noteq> [] then Some \<lparr> d_key = key, d_token = token, d_source = source \<rparr> else None)"

text \<open>A \<open>for\<close> loop that returns the first detail it builds.\<close>

fun first_detail :: "('a \<Rightarrow> detail option) \<Rightarrow> 'a list \<Rightarrow> detail option" where
  "first_detail f [] = None"
| "first_detail f (x # xs) = (case f x of Some d \<Rightarrow> Some d | None \<Rightarrow> first_detail f xs)"

definition getTiingoTokenDetail :: "environment \<Rightarrow> detail" where
  "getTiingoTokenDetail env =
     (case first_detail (\<lambda>key. buildDetail key (readEnvValue env key) ''env:preferred'')
             TIINGO_TOKEN_ENV_KEYS of
        Some d \<Rightarrow> d
      | None \<Rightarrow>
     (case first_detail (\<lambda>key. let lower = toLowerCase key
                               in buildDetail lower (readEnvValue env lower) ''env:lowercase'')
             TIINGO_TOKEN_ENV_KEYS of
        Some d \<Rightarrow> d
      | None \<Rightarrow>
     (case first_detail (\<lambda>kv. buildDetail (fst kv) (snd kv) ''env:scan'') env of
        Some d \<Rightarrow> d
      | None \<Rightarrow>
     (case first_detail (\<lambda>kv. buildDetail (fst kv) (fst kv) ''env:name-as-token'') env of
        Some d \<Rightarrow> d
      | None \<Rightarrow> \<lparr> d_key = [], d_token = [], d_source = [] \<rparr>))))"

definition getTiingoToken :: "environment \<Rightarrow> string" where
  "getTiingoToken env = d_token (getTiingoTokenDetail env)"

text \<open>
  The four stages in the specification's words: the candidates, each a name, the text
  searched for a token and the stage's label, in search order; the credential is taken
  from the first candidate whose text holds a token.
\<close>

definition stage_candidates :: "environment \<Rightarrow> (string \<times> string \<times> string) list" where
  "stage_candidates env =
     map (\<lambda>key. (key, readEnvValue env key, ''env:preferred'')) TIINGO_TOKEN_ENV_KEYS @
     map (\<lambda>key. (toLowerCase key, readEnvValue env (toLowerCase key), ''env:lowercase''))
       TIINGO_TOKEN_ENV_KEYS @
     map (\<lambda>kv. (fst kv, snd kv, ''env:scan'')) env @
     map (\<lambda>kv. (fst kv, fst kv, ''env:name-as-token'')) env"

definition resolve_in_stages :: "environment \<Rightarrow> detail" where
  "resolve_in_stages env =
     (case find (\<lambda>c. extractTokenCandidate (fst (snd c)) \<noteq> []) (stage_candidates env) of
        Some c \<Rightarrow> \<lparr> d_key = fst c, d_token = extractTokenCandidate (fst (snd c)),
                   d_source = snd (snd c) \<rparr>
      | None \<Rightarrow> \<lparr> d_key = [], d_token = [], d_source = [] \<rparr>)"

text \<open>An environment whose only variable holds 129 letters.\<close>

definition long_env :: environment where
  "long_env = [(''TIINGO_KEY'', replicate 129 (CHR ''a''))]"

text \<open>An environment whose only variable carries a token inside other text.\<close>

definition bearer_env :: environment where
  "bearer_env = [(''FOO'', ''Bearer abcdefghijklmnopqrstuvwxyz0123 x'')]"

section \<open>tiingo-client.js: cache, rate limiter and \<open>makeRequest\<close>\<close>

text \<open>
  Time is the value of \<open>Date.now()\<close>, in milliseconds. A timer that is asked to wait
  \<open>d\<close> milliseconds advances the clock by exactly \<open>d\<close>. Times, delays and the counts
  of the rate limiter are computed exactly.
\<close>

record entry =
  e_value :: js
  e_expiresAt :: real

type_synonym cache = "string \<Rightarrow> entry option"

text \<open>\<open>SimpleCache.set\<close> and \<open>SimpleCache.get\<close>, at the time \<open>now\<close>.\<close>

definition cache_set :: "cache \<Rightarrow> real \<Rightarrow> string \<Rightarrow> js \<Rightarrow> real \<Rightarrow> cache" where
  "cache_set m now key v ttl = m(key \<mapsto> \<lparr> e_value = v, e_expiresAt = now + ttl \<rparr>)"

definition cache_get :: "cache \<Rightarrow> real \<Rightarrow> string \<Rightarrow> js \<times> cache" where
  "cache_get m now key =
     (case m key of
        None \<Rightarrow> (JUndefined, m)
      | Some e \<Rightarrow> if now > e_expiresAt e then (JUndefined, m(key := None)) else (e_value e, m))"

record limiter =
  rl_maxRequests :: real
  rl_windowMs :: real
  rl_tokens :: real
  rl_lastRefill :: real

text \<open>
  \<open>RateLimiter.acquire\<close> called at \<open>now\<close>: the limiter and the time at which the
  caller goes on. It may wait for ever, so it is a partial function.
\<close>

partial_function (option) acquire :: "limiter \<Rightarrow> real \<Rightarrow> (limiter \<times> real) option" where
  "acquire rl now =
     (let timePassed = now - rl_lastRefill rl;
          tokensToAdd = of_int \<lfloor>timePassed / rl_windowMs rl * rl_maxRequests rl\<rfloor>;
          tokens = min (rl_maxRequests rl) (rl_tokens rl + tokensToAdd);
          rl1 = rl\<lparr> rl_tokens := tokens, rl_lastRefill := now \<rparr>
      in if tokens > 0 then Some (rl1\<lparr> rl_tokens := tokens - 1 \<rparr>, now)
         else acquire rl1 (now + rl_windowMs rl / rl_maxRequests rl))"

declare acquire.simps [code]

text \<open>
  A parameter value: absent, \<open>null\<close>, or a string (a number counts as its decimal
  text). A parameter object binds each name once.
\<close>

datatype pval = PUndefined | PNull | PStr string

fun render :: "pval \<Rightarrow> string" where
  "render PUndefined = ''undefined''"
| "render PNull = ''null''"
| "render (PStr s) = s"

text \<open>\<open>Array.prototype.sort\<close> on strings: by code units, position by position.\<close>

fun str_le :: "string \<Rightarrow> string \<Rightarrow> bool" where
  "str_le [] t = True"
| "str_le (c # cs) [] = False"
| "str_le (c # cs) (d # ds) =
     ((of_char c :: nat) < of_char d \<or> (c = d \<and> str_le cs ds))"

fun insert_key :: "string \<Rightarrow> string list \<Rightarrow> string list" where
  "insert_key k [] = [k]"
| "insert_key k (x # xs) = (if str_le k x then k # x # xs else x # insert_key k xs)"

definition sort_keys :: "string list \<Rightarrow> string list" where
  "sort_keys ks = foldr insert_key ks []"

fun join_with :: "string \<Rightarrow> string list \<Rightarrow> string" where
  "join_with sep [] = []"
| "join_with sep [x] = x"
| "join_with sep (x # y # ys) = x @ sep @ join_with sep (y # ys)"

definition param_value :: "(string \<times> pval) list \<Rightarrow> string \<Rightarrow> pval" where
  "param_value params k = (case map_of params k of None \<Rightarrow> PUndefined | Some v \<Rightarrow> v)"

definition getCacheKey :: "string \<Rightarrow> (string \<times> pval) list \<Rightarrow> string" where
  "getCacheKey endpoint params =
     endpoint @ ''?'' @
     join_with ''&'' (map (\<lambda>k. k @ ''='' @ render (param_value params k)) (sort_keys (map fst params)))"

text \<open>
  The request URL: the base, the endpoint and the search parameters. The base is taken to
  be a well-formed absolute URL and the endpoint a path without a query of its own.
\<close>

record url =
  u_base :: string
  u_endpoint :: string
  u_search :: "(string \<times> string) list"

definition searchParams_set :: "(string \<times> string) list \<Rightarrow> string \<Rightarrow> string \<Rightarrow> (string \<times> string) list" where
  "searchParams_set q k v =
     (if k \<in> fst ` set q then map (\<lambda>kv. if fst kv = k then (k, v) else kv) q else q @ [(k, v)])"

fun set_defined_params :: "(string \<times> string) list \<Rightarrow> (string \<times> pval) list \<Rightarrow> (string \<times> string) list" where
  "set_defined_params q [] = q"
| "set_defined_params q ((k, PStr v) # ps) =
     set_defined_params (if v = [] then q else searchParams_set q k v) ps"
| "set_defined_params q ((k, _) # ps) = set_defined_params q ps"

text \<open>
  What one \<open>fetch\<close> comes to: it rejects (network failure, or the abort by the timeout),
  the response is not \<open>ok\<close> (status and body text), its body is not JSON, or it
  delivers a value.
\<close>

datatype outcome = Rejected string | Failed nat string | Malformed string | Delivered js

text \<open>
  The network is a parameter: \<open>net u n\<close> is the outcome of fetching \<open>u\<close> when \<open>n\<close>
  fetches were issued before, and the time the attempt takes.
\<close>

type_synonym network = "url \<Rightarrow> nat \<Rightarrow> outcome \<times> real"

function show_nat :: "nat \<Rightarrow> string" where
  "show_nat n =
     (if n < 10 then [digit_chars ! n] else show_nat (n div 10) @ [digit_chars ! (n mod 10)])"
  by pat_completeness auto
termination
  by (relation "measure id") auto

declare show_nat.simps [simp del]

definition error_message :: "outcome \<Rightarrow> string" where
  "error_message out =
     (case out of
        Rejected m \<Rightarrow> m
      | Failed status body \<Rightarrow> ''Tiingo API error '' @ show_nat status @ '': '' @ body
      | Malformed m \<Rightarrow> m
      | Delivered v \<Rightarrow> [])"

text \<open>The test that ends the retries: the message contains one of four digit strings.\<close>

definition is_client_error :: "string \<Rightarrow> bool" where
  "is_client_error message =
     (str_includes message ''400'' \<or> str_includes message ''401'' \<or>
      str_includes message ''403'' \<or> str_includes message ''404'')"

text \<open>What \<open>makeRequest\<close> throws: an error with its message, or \<open>undefined\<close>.\<close>

datatype thrown = Error string | ThrownUndefined

record client =
  c_apiKey :: "string option"
  c_baseUrl :: string
  c_timeout :: real
  c_maxRetries :: int
  c_retryDelay :: real
  c_cache :: cache
  c_rateLimiter :: limiter
  c_enableCache :: bool
  c_enableRateLimit :: bool

record world =
  w_clock :: real
  w_fetched :: "url list"
  w_slept :: "real list"

record request_options =
  o_cacheTtl :: "real option"
  o_skipCache :: bool
  o_skipRateLimit :: bool
  o_retries :: "int option"

definition build_url :: "client \<Rightarrow> string \<Rightarrow> (string \<times> pval) list \<Rightarrow> url" where
  "build_url c endpoint params =
     \<lparr> u_base = c_baseUrl c, u_endpoint = endpoint,
       u_search =
         set_defined_params
           (case c_apiKey c of
              None \<Rightarrow> []
            | Some k \<Rightarrow> if k = [] then [] else searchParams_set [] ''token'' k)
           params \<rparr>"

text \<open>\<open>this.sleep(ms)\<close>, and the value a fetch delivered, if it did.\<close>

definition sleep :: "real \<Rightarrow> world \<Rightarrow> world" where
  "sleep ms w = w\<lparr> w_clock := w_clock w + ms, w_slept := w_slept w @ [ms] \<rparr>"

fun delivered :: "outcome \<Rightarrow> js option" where
  "delivered (Delivered v) = Some v"
| "delivered _ = None"

text \<open>
  The retry loop of \<open>makeRequest\<close>, from \<open>attempt\<close> on; \<open>lastError\<close> is what the loop
  has caught so far. A successful attempt returns (and caches); a failed one ends the
  loop when its message passes the client-error test, and otherwise sleeps (unless it was
  the last attempt) and goes round again.
\<close>

function attempt_loop ::
  "network \<Rightarrow> client \<Rightarrow> world \<Rightarrow> url \<Rightarrow> string \<Rightarrow> bool \<Rightarrow> real \<Rightarrow> int \<Rightarrow> int \<Rightarrow> thrown
     \<Rightarrow> (thrown + js) \<times> client \<times> world" where
  "attempt_loop net c w u cacheKey caching cacheTtl retries attempt lastError =
     (if attempt \<le> retries then
        (let out = fst (net u (length (w_fetched w)));
             took = snd (net u (length (w_fetched w)));
             w1 = w\<lparr> w_clock := w_clock w + took, w_fetched := w_fetched w @ [u] \<rparr>
         in case delivered out of
              Some data \<Rightarrow>
                (Inr data,
                 (if caching
                  then c\<lparr> c_cache := cache_set (c_cache c) (w_clock w1) cacheKey data cacheTtl \<rparr>
                  else c),
                 w1)
            | None \<Rightarrow>
                if is_client_error (error_message out) then (Inl (Error (error_message out)), c, w1)
                else attempt_loop net c
                       (if attempt < retries then sleep (c_retryDelay c * 2 ^ nat attempt) w1 else w1)
                       u cacheKey caching cacheTtl retries (attempt + 1)
                       (Error (error_message out)))
      else (Inl lastError, c, w))"
  by pat_completeness auto
termination
  by (relation "measure (\<lambda>(net, c, w, u, cacheKey, caching, cacheTtl, retries, attempt, lastError).
        nat (retries + 1 - attempt))") auto

declare attempt_loop.simps [simp del]

text \<open>
  \<open>makeRequest\<close>: the result (thrown or returned), the client and the world afterwards;
  \<open>None\<close> when the rate limiter never lets the call through.
\<close>

definition makeRequest ::
  "network \<Rightarrow> client \<Rightarrow> world \<Rightarrow> string \<Rightarrow> (string \<times> pval) list \<Rightarrow> request_options
     \<Rightarrow> ((thrown + js) \<times> client \<times> world) option" where
  "makeRequest net c w endpoint params options =
     (let cacheTtl = (case o_cacheTtl options of None \<Rightarrow> 60000 | Some t \<Rightarrow> t);
          retries = (case o_retries options of None \<Rightarrow> c_maxRetries c | Some r \<Rightarrow> r);
          cacheKey = getCacheKey endpoint params;
          caching = (c_enableCache c \<and> \<not> o_skipCache options);
          looked = (if caching then cache_get (c_cache c) (w_clock w) cacheKey
                    else (JUndefined, c_cache c));
          c1 = c\<lparr> c_cache := snd looked \<rparr>
      in if caching \<and> truthy (fst looked) then Some (Inr (fst looked), c1, w)
         else
           (case (if c_enableRateLimit c \<and> \<not> o_skipRateLimit options
                  then acquire (c_rateLimiter c1) (w_clock w)
                  else Some (c_rateLimiter c1, w_clock w)) of
              None \<Rightarrow> None
            | Some (rl, t) \<Rightarrow>
                Some (attempt_loop net (c1\<lparr> c_rateLimiter := rl \<rparr>) (w\<lparr> w_clock := t \<rparr>)
                        (build_url c1 endpoint params) cacheKey caching cacheTtl retries 0
                        ThrownUndefined)))"


text \<open>A client with the constructor's defaults, an idle world, and the default options.\<close>

definition demo_client :: client where
  "demo_client =
     \<lparr> c_apiKey = Some ''k'', c_baseUrl = ''https://api.tiingo.com'', c_timeout = 10000,
       c_maxRetries = 3, c_retryDelay = 1000, c_cache = Map.empty,
       c_rateLimiter =
         \<lparr> rl_maxRequests = 200, rl_windowMs = 60000, rl_tokens = 200, rl_lastRefill = 0 \<rparr>,
       c_enableCache = True, c_enableRateLimit = True \<rparr>"

definition demo_world :: world where
  "demo_world = \<lparr> w_clock = 0, w_fetched = [], w_slept = [] \<rparr>"

definition default_options :: request_options where
  "default_options =
     \<lparr> o_cacheTtl = None, o_skipCache = False, o_skipRateLimit = False, o_retries = None \<rparr>"


definition net_500_mentions_404 :: network where
  "net_500_mentions_404 = (\<lambda>u n. (Failed 500 ''upstream 404'', 0))"





section \<open>The request handler: limits, intervals and synthetic series\<close>

definition is_digit :: "char \<Rightarrow> bool" where
  "is_digit c = (c \<in> set digit_chars)"

definition digit_value :: "char \<Rightarrow> int" where
  "digit_value c =
     (case map_of (zip digit_chars [0, 1, 2, 3, 4, 5, 6, 7, 8, 9]) c of Some d \<Rightarrow> d | None \<Rightarrow> 0)"

definition digits_value :: "string \<Rightarrow> int" where
  "digits_value ds = foldl (\<lambda>a c. 10 * a + digit_value c) 0 ds"

text \<open>The double nearest to an integer; it is an integer again.\<close>

definition double_of_int :: "int \<Rightarrow> int" where
  "double_of_int n = \<lfloor>rd (of_int n)\<rfloor>"

text \<open>
  \<open>parseInt(s, 10)\<close>: leading white space, an optional sign, then the leading digits,
  read as the nearest double; \<open>None\<close> stands for \<open>NaN\<close>. A number of digits that
  overflows is kept as the large integer it rounds to, where JavaScript has an infinity:
  the handler only compares it with its bounds and multiplies it, with the same outcome.
\<close>

definition parseInt10 :: "string \<Rightarrow> int option" where
  "parseInt10 s =
     (let s1 = dropWhile is_ws s;
          negative = (case s1 of c # r \<Rightarrow> c = CHR ''-'' | [] \<Rightarrow> False);
          s2 = (case s1 of c # r \<Rightarrow> if c = CHR ''-'' \<or> c = CHR ''+'' then r else s1 | [] \<Rightarrow> []);
          ds = takeWhile is_digit s2
      in if ds = [] then None
         else Some (if negative then - double_of_int (digits_value ds)
                    else double_of_int (digits_value ds)))"

text \<open>
  \<open>parseIntervalMinutes\<close>: the first run of digits, read by \<open>parseInt\<close>; a run that
  overflows to \<open>Infinity\<close> is not finite and gives the default.
\<close>

definition parseIntervalMinutes :: "string \<Rightarrow> int" where
  "parseIntervalMinutes interval =
     (let v = toLowerCase (trim interval);
          ds = takeWhile is_digit (dropWhile (\<lambda>c. \<not> is_digit c) v);
          raw = double_of_int (digits_value ds)
      in if ds \<noteq> [] \<and> digits_value ds < double_overflow \<and> 0 < raw then raw else 5)"

text \<open>
  A \<open>Date\<close> holds a time value of at most 8.64e15 milliseconds either side of the epoch;
  \<open>toISOString\<close> throws a \<open>RangeError\<close> on any other date. Time values are computed
  on exact integers: a product of the handler that reaches \<open>2^53\<close>, where doubles start
  to round, lies so far from a clock of the next ten thousand years that the date is out
  of range either way.
\<close>

definition valid_time :: "int \<Rightarrow> bool" where
  "valid_time t = (\<bar>t\<bar> \<le> 8640000000000000)"

datatype uncaught = RangeError string

text \<open>
  A price bar: \<open>b_time\<close> is the \<open>timestamp\<close> of an intraday bar and the \<open>date\<close> of
  a daily one, and only daily bars carry \<open>adjClose\<close>.
\<close>

record bar =
  b_time :: stamp
  b_open :: real
  b_high :: real
  b_low :: real
  b_close :: real
  b_volume :: real
  b_adjClose :: "real option"

text \<open>
  \<open>Math.sin\<close>, taken to be the sine rounded to the nearest double; an engine may return
  a neighbouring double, and nothing below depends on the prices of a series.
\<close>

definition Math_sin :: "real \<Rightarrow> real" where
  "Math_sin x = rd (sin x)"

text \<open>
  One round of the loop of \<open>generateFallbackIntradaySeries\<close>, for the index \<open>i\<close>
  and the price so far: the new price and the bar that is pushed. Each round draws five
  random numbers; round \<open>limit - 1 - i\<close> starts at draw \<open>5 * (limit - 1 - i)\<close>.
\<close>

definition intraday_round ::
  "(nat \<Rightarrow> real) \<Rightarrow> int \<Rightarrow> int \<Rightarrow> int \<Rightarrow> int \<Rightarrow> real \<Rightarrow> real \<times> bar" where
  "intraday_round rnd now limit intervalMinutes i price =
     (let k = 5 * nat (limit - 1 - i);
          ts = now - i * intervalMinutes * 60 * 1000;
          drift = fmul (Math_sin (fdiv (of_int (limit - i)) 10)) (rd (5 / 1000));
          random = fmul (fsub (rnd k) (1 / 2)) (rd (2 / 100));
          price1 = max (1 / 2) (fmul price (fadd (fadd 1 drift) random));
          opn = fmul price1 (fadd (rd (995 / 1000)) (fmul (rnd (k + 1)) (rd (1 / 100))));
          cls = price1;
          high = fmul (max opn cls) (fadd 1 (fmul (rnd (k + 2)) (rd (5 / 1000))));
          low = fmul (min opn cls) (fsub 1 (fmul (rnd (k + 3)) (rd (5 / 1000))))
      in (price1,
          \<lparr> b_time = IsoTime ts, b_open = toFixed 2 opn, b_high = toFixed 2 high,
            b_low = toFixed 2 low, b_close = toFixed 2 cls,
            b_volume = of_int \<lfloor>fmul (rnd (k + 4)) 120000\<rfloor> + 20000,
            b_adjClose = None \<rparr>))"

text \<open>
  The loop from \<open>i\<close> down to 0. Rendering the time stamp of a round throws when its
  date is out of range, and nothing in the function catches that.
\<close>

function intraday_rounds ::
  "(nat \<Rightarrow> real) \<Rightarrow> int \<Rightarrow> int \<Rightarrow> int \<Rightarrow> int \<Rightarrow> real \<Rightarrow> bar list \<Rightarrow> uncaught + bar list" where
  "intraday_rounds rnd now limit intervalMinutes i price results =
     (if 0 \<le> i then
        (if \<not> valid_time (now - i * intervalMinutes * 60 * 1000)
         then Inl (RangeError ''Invalid time value'')
         else intraday_rounds rnd now limit intervalMinutes (i - 1)
                (fst (intraday_round rnd now limit intervalMinutes i price))
                (results @ [snd (intraday_round rnd now limit intervalMinutes i price)]))
      else Inr results)"
  by pat_completeness auto
termination
  by (relation "measure (\<lambda>(rnd, now, limit, intervalMinutes, i, price, results). nat (i + 1))") auto

declare intraday_rounds.simps [simp del]

definition generateFallbackIntradaySeries ::
  "(nat \<Rightarrow> real) \<Rightarrow> int \<Rightarrow> string \<Rightarrow> string \<Rightarrow> int \<Rightarrow> int \<Rightarrow> uncaught + bar list" where
  "generateFallbackIntradaySeries rnd now originalSymbol mappedSymbol limit intervalMinutes =
     intraday_rounds rnd now limit intervalMinutes (limit - 1)
       (base_price originalSymbol mappedSymbol) []"

text \<open>The same for \<open>generateFallbackDailySeries\<close>.\<close>

definition daily_round :: "(nat \<Rightarrow> real) \<Rightarrow> int \<Rightarrow> int \<Rightarrow> int \<Rightarrow> real \<Rightarrow> real \<times> bar" where
  "daily_round rnd now limit i price =
     (let k = 5 * nat (limit - 1 - i);
          day = now - i * 24 * 60 * 60 * 1000;
          drift = fmul (Math_sin (fdiv (of_int (limit - i)) 14)) (rd (1 / 100));
          random = fmul (fsub (rnd k) (1 / 2)) (rd (3 / 100));
          price1 = max (1 / 2) (fmul price (fadd (fadd 1 drift) random));
          opn = fmul price1 (fadd (rd (98 / 100)) (fmul (rnd (k + 1)) (rd (3 / 100))));
          cls = price1;
          high = fmul (max opn cls) (fadd 1 (fmul (rnd (k + 2)) (rd (15 / 1000))));
          low = fmul (min opn cls) (fsub 1 (fmul (rnd (k + 3)) (rd (15 / 1000))))
      in (price1,
          \<lparr> b_time = IsoDay day, b_open = toFixed 2 opn, b_high = toFixed 2 high,
            b_low = toFixed 2 low, b_close = toFixed 2 cls,
            b_volume = of_int \<lfloor>fmul (rnd (k + 4)) 1500000\<rfloor> + 300000,
            b_adjClose = Some (toFixed 2 cls) \<rparr>))"

function daily_rounds ::
  "(nat \<Rightarrow> real) \<Rightarrow> int \<Rightarrow> int \<Rightarrow> int \<Rightarrow> real \<Rightarrow> bar list \<Rightarrow> uncaught + bar list" where
  "daily_rounds rnd now limit i price results =
     (if 0 \<le> i then
        (if \<not> valid_time (now - i * 24 * 60 * 60 * 1000)
         then Inl (RangeError ''Invalid time value'')
         else daily_rounds rnd now limit (i - 1)
                (fst (daily_round rnd now limit i price))
                (results @ [snd (daily_round rnd now limit i price)]))
      else Inr results)"
  by pat_completeness auto
termination
  by (relation "measure (\<lambda>(rnd, now, limit, i, price, results). nat (i + 1))") auto

declare daily_rounds.simps [simp del]

definition generateFallbackDailySeries ::
  "(nat \<Rightarrow> real) \<Rightarrow> int \<Rightarrow> string \<Rightarrow> string \<Rightarrow> int \<Rightarrow> uncaught + bar list" where
  "generateFallbackDailySeries rnd now originalSymbol mappedSymbol limit =
     daily_rounds rnd now limit (limit - 1) (base_price originalSymbol mappedSymbol) []"

text \<open>The limits the handler computes from the \<open>limit\<close> parameter.\<close>

definition clamp_limit :: "string option \<Rightarrow> int \<Rightarrow> int \<Rightarrow> int" where
  "clamp_limit param dflt hard =
     min (case (case param of None \<Rightarrow> Some dflt | Some s \<Rightarrow> parseInt10 s) of
            None \<Rightarrow> dflt
          | Some n \<Rightarrow> if n = 0 then dflt else n)
         hard"

definition intraday_limit :: "string option \<Rightarrow> int" where
  "intraday_limit param = clamp_limit param 150 300"

definition eod_limit :: "string option \<Rightarrow> int" where
  "eod_limit param = clamp_limit param 180 365"

section \<open>The request handler\<close>

text \<open>
  What the handler asks of the provider: the latest quote
  (\<open>/iex?tickers=SYMBOL&token=TOKEN\<close>), intraday prices
  (\<open>/iex/SYMBOL/prices?startDate=DAY&resampleFreq=INTERVAL&token=TOKEN\<close>) or daily
  prices (\<open>/tiingo/daily/SYMBOL/prices?token=TOKEN&startDate=DAY\<close>); a start date is
  kept as its time value.
\<close>

datatype upstream =
    IexTickers string string
  | IexPrices string int string string
  | DailyPrices string string int

text \<open>
  What a \<open>fetch\<close> comes to: it rejects with a message, or there is a response with a
  status, whose \<open>json()\<close> rejects with a message or gives a value.
\<close>

datatype reply = NetworkError string | Reply nat "string + js"

definition response_ok :: "nat \<Rightarrow> bool" where
  "response_ok status = (200 \<le> status \<and> status \<le> 299)"

text \<open>
  Everything outside the handler: \<open>process.env.TIINGO_KEY\<close>, the clock (one reading
  for the whole invocation), \<open>Math.random\<close>, \<open>fetch\<close>, and the conversions of values
  to numbers and to strings that are not modelled.
\<close>

record host =
  h_token :: "string option"
  h_now :: int
  h_random :: "nat \<Rightarrow> real"
  h_fetch :: "upstream \<Rightarrow> reply"
  h_coerce :: coercion
  h_stringify :: "js \<Rightarrow> string"

record event =
  httpMethod :: string
  queryStringParameters :: "(string \<times> string) list option"

definition query_param :: "event \<Rightarrow> string \<Rightarrow> string option" where
  "query_param ev name =
     (case queryStringParameters ev of None \<Rightarrow> None | Some q \<Rightarrow> map_of q name)"

text \<open>The token when it is truthy.\<close>

definition truthy_token :: "host \<Rightarrow> string option" where
  "truthy_token h = (case h_token h of None \<Rightarrow> None | Some t \<Rightarrow> if t = [] then None else Some t)"

record meta =
  m_currency :: string
  m_exchange :: string
  m_timestamp :: stamp
  m_kind :: string
  m_source :: string
  m_fallback :: string
  m_reason :: string
  m_chosenKey :: string
  m_tokenPreview :: string
  m_message :: "string option"

definition applyFallback :: "meta \<Rightarrow> string \<Rightarrow> string \<Rightarrow> string \<Rightarrow> meta" where
  "applyFallback m source fallbackKey reasonMessage =
     m\<lparr> m_reason := ''fallback'', m_source := source, m_fallback := fallbackKey,
        m_message := (if reasonMessage \<noteq> [] then Some reasonMessage else m_message m) \<rparr>"

datatype item = QuoteItem quote | BarItem bar

text \<open>
  The \<open>data\<close> of a response: an array of quotes or bars, or the object that says a kind
  is not implemented (its message is the kind followed by a fixed text, and the symbol).
\<close>

datatype payload = Items "item list" | NotImplemented string string

record envelope =
  r_originalSymbol :: string
  r_mappedSymbol :: string
  r_symbol :: string
  r_data :: payload
  r_meta :: meta
  r_warning :: "string option"

datatype body = EmptyBody | ErrorBody string | Envelope envelope

record response =
  statusCode :: nat
  headers :: "(string \<times> string) list"
  body :: body

definition baseHeaders :: "(string \<times> string) list" where
  "baseHeaders =
     [(''Content-Type'', ''application/json''),
      (''Access-Control-Allow-Origin'', ''*''),
      (''Access-Control-Allow-Headers'', ''Content-Type''),
      (''Access-Control-Allow-Methods'', ''GET, POST, OPTIONS'')]"

text \<open>\<open>rawData.slice(-limit)\<close>.\<close>

definition slice_from_end :: "'a list \<Rightarrow> int \<Rightarrow> 'a list" where
  "slice_from_end xs limit =
     (if 0 < limit then drop (length xs - nat limit) xs else drop (nat (- limit)) xs)"

text \<open>
  Reading \<open>item.date\<close> from \<open>null\<close> throws a \<open>TypeError\<close>; this is its message.
\<close>

definition null_item_message :: string where
  "null_item_message = ''Cannot read properties of null (reading date)''"

definition intraday_row :: "coercion \<Rightarrow> js \<Rightarrow> bar" where
  "intraday_row coerce it =
     \<lparr> b_time = Provided (get_prop it ''date''),
       b_open = ensureNumber coerce (get_prop it ''open'') 0,
       b_high = ensureNumber coerce (get_prop it ''high'') 0,
       b_low = ensureNumber coerce (get_prop it ''low'') 0,
       b_close = ensureNumber coerce (get_prop it ''close'') 0,
       b_volume = ensureNumber coerce (get_prop it ''volume'') 0,
       b_adjClose = None \<rparr>"

definition eod_row :: "coercion \<Rightarrow> js \<Rightarrow> bar" where
  "eod_row coerce it =
     \<lparr> b_time = Provided (get_prop it ''date''),
       b_open = ensureNumber coerce (get_prop it ''open'') 0,
       b_high = ensureNumber coerce (get_prop it ''high'') 0,
       b_low = ensureNumber coerce (get_prop it ''low'') 0,
       b_close = ensureNumber coerce (get_prop it ''close'') 0,
       b_volume = ensureNumber coerce (get_prop it ''volume'') 0,
       b_adjClose =
         Some (ensureNumber coerce (coalesce (get_prop it ''adjClose'') (get_prop it ''close'')) 0) \<rparr>"

definition map_rows :: "(js \<Rightarrow> bar) \<Rightarrow> js list \<Rightarrow> string + bar list" where
  "map_rows row xs = (if list_ex nullish xs then Inl null_item_message else Inr (map row xs))"

text \<open>
  The \<open>try\<close> block of the \<open>intraday_latest\<close> case: the caught error's message or the
  quote, and the requests issued.
\<close>

definition live_quote :: "host \<Rightarrow> string \<Rightarrow> string \<Rightarrow> string \<Rightarrow> (string + quote) \<times> upstream list" where
  "live_quote h rawSymbol mappedSymbol token =
     (case h_fetch h (IexTickers mappedSymbol token) of
        NetworkError m \<Rightarrow> Inl m
      | Reply status (Inl m) \<Rightarrow> Inl m
      | Reply status (Inr rawData) \<Rightarrow>
          if \<not> response_ok status then Inl (''Tiingo API error: '' @ show_nat status)
          else
            (let quote = (case rawData of
                            JArr [] \<Rightarrow> JUndefined
                          | JArr (x # xs) \<Rightarrow> x
                          | _ \<Rightarrow> rawData)
             in if truthy quote \<and> (truthy (get_prop quote ''last'') \<or> truthy (get_prop quote ''tngoLast''))
                then Inr (buildQuoteFromTiingo (h_coerce h) (h_now h) quote mappedSymbol rawSymbol)
                else Inl ''No quote returned''),
      [IexTickers mappedSymbol token])"

definition to_text :: "(js \<Rightarrow> string) \<Rightarrow> js \<Rightarrow> string" where
  "to_text stringify v = (case v of JStr s \<Rightarrow> s | _ \<Rightarrow> stringify v)"

definition error_detail :: "js \<Rightarrow> js" where
  "error_detail rawData =
     (if is_object rawData
      then or_else (get_prop rawData ''detail'')
             (or_else (get_prop rawData ''message'') (or_else (get_prop rawData ''error'') (JStr [])))
      else JStr [])"

definition lookback_start :: "int \<Rightarrow> int \<Rightarrow> int \<Rightarrow> int" where
  "lookback_start now limit intervalMinutes =
     (let requiredMinutes = limit * intervalMinutes;
          minimumDays = max 1 \<lceil>real_of_int requiredMinutes / 390\<rceil>;
          lookbackDays = min 10 (max (minimumDays + 2) 3)
      in now - lookbackDays * 24 * 60 * 60 * 1000)"

definition live_intraday ::
  "host \<Rightarrow> string \<Rightarrow> string \<Rightarrow> int \<Rightarrow> string \<Rightarrow> int \<Rightarrow> (string + bar list) \<times> upstream list" where
  "live_intraday h mappedSymbol token limit interval intervalMinutes =
     (let start = lookback_start (h_now h) limit intervalMinutes
      in if \<not> valid_time start then (Inl ''Invalid time value'', [])
         else
           (case h_fetch h (IexPrices mappedSymbol start interval token) of
              NetworkError m \<Rightarrow> Inl m
            | Reply status (Inl m) \<Rightarrow> Inl m
            | Reply status (Inr rawData) \<Rightarrow>
                if \<not> response_ok status then
                  Inl (if truthy (error_detail rawData)
                       then to_text (h_stringify h) (error_detail rawData)
                       else ''Tiingo API error: '' @ show_nat status)
                else (case rawData of
                        JArr (x # xs) \<Rightarrow> map_rows (intraday_row (h_coerce h)) (slice_from_end (x # xs) limit)
                      | _ \<Rightarrow> Inl ''No intraday data returned.''),
            [IexPrices mappedSymbol start interval token]))"

definition live_eod :: "host \<Rightarrow> string \<Rightarrow> string \<Rightarrow> int \<Rightarrow> (string + bar list) \<times> upstream list" where
  "live_eod h mappedSymbol token limit =
     (let start = h_now h - limit * 24 * 60 * 60 * 1000
      in if \<not> valid_time start then (Inl ''Invalid time value'', [])
         else
           (case h_fetch h (DailyPrices mappedSymbol token start) of
              NetworkError m \<Rightarrow> Inl m
            | Reply status (Inl m) \<Rightarrow> Inl m
            | Reply status (Inr rawData) \<Rightarrow>
                (case rawData of
                   JArr (x # xs) \<Rightarrow>
                     if \<not> response_ok status then Inl (''Tiingo API error: '' @ show_nat status)
                     else map_rows (eod_row (h_coerce h)) (slice_from_end (x # xs) limit)
                 | _ \<Rightarrow> Inl (''Tiingo API error: '' @ show_nat status)),
            [DailyPrices mappedSymbol token start]))"

text \<open>
  What a case of the \<open>switch\<close> leaves behind: the data, the meta object, the warning
  and the requests issued.
\<close>

type_synonym outcome4 = "payload \<times> meta \<times> string \<times> upstream list"

definition quote_case :: "host \<Rightarrow> string \<Rightarrow> string \<Rightarrow> meta \<Rightarrow> outcome4" where
  "quote_case h rawSymbol mappedSymbol m =
     (case truthy_token h of
        Some token \<Rightarrow>
          (case live_quote h rawSymbol mappedSymbol token of
             (Inr quoteData, reqs) \<Rightarrow> (Items [QuoteItem quoteData], m, [], reqs)
           | (Inl message, reqs) \<Rightarrow>
               (Items [QuoteItem (generateFallbackQuote (h_random h) (h_now h) rawSymbol mappedSymbol)],
                applyFallback m ''fallback'' ''intraday_latest'' message,
                ''Live data unavailable. Showing fallback quote.'', reqs))
      | None \<Rightarrow>
          (Items [QuoteItem (generateFallbackQuote (h_random h) (h_now h) rawSymbol mappedSymbol)],
           applyFallback m ''mock'' ''missing-token'' ''Token not configured'',
           ''Tiingo token missing. Showing sample data.'', []))"

text \<open>
  The live part of the intraday and end-of-day cases: the rows, if any, the meta object,
  the warning and the requests issued.
\<close>

definition intraday_live_part ::
  "host \<Rightarrow> string \<Rightarrow> int \<Rightarrow> string \<Rightarrow> int \<Rightarrow> meta \<Rightarrow> bar list option \<times> meta \<times> string \<times> upstream list" where
  "intraday_live_part h mappedSymbol limit interval intervalMinutes m =
     (case truthy_token h of
        Some token \<Rightarrow>
          (case live_intraday h mappedSymbol token limit interval intervalMinutes of
             (Inr rows, reqs) \<Rightarrow> (Some rows, m, [], reqs)
           | (Inl message, reqs) \<Rightarrow>
               (None, applyFallback m ''fallback'' ''intraday'' message,
                ''Live intraday data unavailable. Showing fallback series.'', reqs))
      | None \<Rightarrow>
          (None, applyFallback m ''mock'' ''missing-token'' ''Token not configured'',
           ''Tiingo token missing. Showing sample intraday series.'', []))"

definition no_rows :: "bar list option \<Rightarrow> bool" where
  "no_rows rows = (case rows of None \<Rightarrow> True | Some rs \<Rightarrow> rs = [])"

definition intraday_case ::
  "host \<Rightarrow> event \<Rightarrow> string \<Rightarrow> string \<Rightarrow> meta \<Rightarrow> uncaught + outcome4" where
  "intraday_case h ev rawSymbol mappedSymbol m =
     (let limit = intraday_limit (query_param ev ''limit'');
          interval = (case query_param ev ''interval'' of None \<Rightarrow> ''5min'' | Some s \<Rightarrow> s);
          intervalMinutes = parseIntervalMinutes interval;
          live = intraday_live_part h mappedSymbol limit interval intervalMinutes m
      in if no_rows (fst live)
         then (case generateFallbackIntradaySeries (h_random h) (h_now h) rawSymbol mappedSymbol
                      limit intervalMinutes of
                 Inl e \<Rightarrow> Inl e
               | Inr rows \<Rightarrow> Inr (Items (map BarItem rows), snd live))
         else Inr (Items (map BarItem (the (fst live))), snd live))"

definition eod_live_part ::
  "host \<Rightarrow> string \<Rightarrow> int \<Rightarrow> meta \<Rightarrow> bar list option \<times> meta \<times> string \<times> upstream list" where
  "eod_live_part h mappedSymbol limit m =
     (case truthy_token h of
        Some token \<Rightarrow>
          (case live_eod h mappedSymbol token limit of
             (Inr rows, reqs) \<Rightarrow> (Some rows, m, [], reqs)
           | (Inl message, reqs) \<Rightarrow>
               (None, applyFallback m ''eod-fallback'' ''eod'' message,
                ''Live EOD data unavailable. Showing fallback series.'', reqs))
      | None \<Rightarrow>
          (None, applyFallback m ''mock'' ''missing-token'' ''Token not configured'',
           ''Tiingo token missing. Showing sample EOD series.'', []))"

definition eod_case :: "host \<Rightarrow> event \<Rightarrow> string \<Rightarrow> string \<Rightarrow> meta \<Rightarrow> uncaught + outcome4" where
  "eod_case h ev rawSymbol mappedSymbol m =
     (let limit = eod_limit (query_param ev ''limit'');
          live = eod_live_part h mappedSymbol limit m;
          m1 = fst (snd live)
      in if no_rows (fst live)
         then (case generateFallbackDailySeries (h_random h) (h_now h) rawSymbol mappedSymbol limit of
                 Inl e \<Rightarrow> Inl e
               | Inr rows \<Rightarrow>
                   Inr (Items (map BarItem rows),
                        (if m_source m1 \<noteq> ''mock'' then m1\<lparr> m_source := ''eod-fallback'' \<rparr> else m1),
                        snd (snd live)))
         else Inr (Items (map BarItem (the (fst live))), snd live))"

definition document_kinds :: "string list" where
  "document_kinds = [''news'', ''documents'', ''actions'', ''filings'', ''statements'']"

definition documents_case :: "host \<Rightarrow> meta \<Rightarrow> outcome4" where
  "documents_case h m =
     (Items [],
      (case truthy_token h of
         Some token \<Rightarrow> m
       | None \<Rightarrow> m\<lparr> m_source := ''mock'', m_reason := ''fallback'',
                     m_fallback := (if m_fallback m \<noteq> [] then m_fallback m else ''missing-token'') \<rparr>),
      [], [])"

definition default_case :: "string \<Rightarrow> string \<Rightarrow> meta \<Rightarrow> outcome4" where
  "default_case kind rawSymbol m =
     (NotImplemented (kind @ '' data not implemented'') rawSymbol,
      m\<lparr> m_source := ''mock'', m_reason := ''unsupported'',
         m_fallback := (if m_fallback m \<noteq> [] then m_fallback m else ''unsupported-kind'') \<rparr>,
      ''Requested data type is not implemented.'', [])"

definition switch_kind ::
  "host \<Rightarrow> event \<Rightarrow> string \<Rightarrow> string \<Rightarrow> string \<Rightarrow> meta \<Rightarrow> uncaught + outcome4" where
  "switch_kind h ev kind rawSymbol mappedSymbol m =
     (if kind = ''intraday_latest'' then Inr (quote_case h rawSymbol mappedSymbol m)
      else if kind = ''intraday'' then intraday_case h ev rawSymbol mappedSymbol m
      else if kind = ''eod'' then eod_case h ev rawSymbol mappedSymbol m
      else if kind \<in> set document_kinds then Inr (documents_case h m)
      else Inr (default_case kind rawSymbol m))"

definition initial_meta :: "host \<Rightarrow> string \<Rightarrow> string \<Rightarrow> meta" where
  "initial_meta h kind mappedSymbol =
     \<lparr> m_currency = detectCurrency mappedSymbol,
       m_exchange = detectExchange mappedSymbol,
       m_timestamp = IsoTime (h_now h),
       m_kind = kind,
       m_source = ''live'',
       m_fallback = [],
       m_reason = ''ok'',
       m_chosenKey = (case truthy_token h of Some t \<Rightarrow> ''env:TIINGO_KEY'' | None \<Rightarrow> []),
       m_tokenPreview = previewToken (h_token h),
       m_message = None \<rparr>"

definition respond :: "string \<Rightarrow> string \<Rightarrow> outcome4 \<Rightarrow> response \<times> upstream list" where
  "respond rawSymbol mappedSymbol out =
     (case out of (data, m, warning, reqs) \<Rightarrow>
        (\<lparr> statusCode = 200,
           headers = baseHeaders @
             [(''x-tiingo-source'', m_source m), (''x-tiingo-fallback'', m_fallback m),
              (''x-tiingo-token-preview'', m_tokenPreview m), (''x-tiingo-chosen-key'', m_chosenKey m)],
           body = Envelope
             \<lparr> r_originalSymbol = toUpperCase rawSymbol, r_mappedSymbol = mappedSymbol,
               r_symbol = toUpperCase rawSymbol, r_data = data, r_meta = m,
               r_warning = (if warning \<noteq> [] then Some warning else None) \<rparr> \<rparr>,
         reqs))"

text \<open>
  The handler: the response and the requests issued, or the exception that escapes it.
\<close>

definition handler :: "host \<Rightarrow> event \<Rightarrow> uncaught + (response \<times> upstream list)" where
  "handler h ev =
     (if httpMethod ev = ''OPTIONS''
      then Inr (\<lparr> statusCode = 200, headers = baseHeaders, body = EmptyBody \<rparr>, [])
      else
        (let rawSymbol = trim (case query_param ev ''symbol'' of None \<Rightarrow> [] | Some s \<Rightarrow> s);
             kind = normaliseKind_handler (query_param ev ''kind'')
         in if rawSymbol = []
            then Inr (\<lparr> statusCode = 400, headers = baseHeaders,
                        body = ErrorBody ''Missing symbol parameter'' \<rparr>, [])
            else
              (let mappedSymbol = mapSymbolForAPI rawSymbol
               in case switch_kind h ev kind rawSymbol mappedSymbol
                         (initial_meta h kind mappedSymbol) of
                    Inl e \<Rightarrow> Inl e
                  | Inr out \<Rightarrow> Inr (respond rawSymbol mappedSymbol out))))"

text \<open>The symbol and the kind the handler works with.\<close>

definition request_symbol :: "event \<Rightarrow> string" where
  "request_symbol ev = trim (case query_param ev ''symbol'' of None \<Rightarrow> [] | Some s \<Rightarrow> s)"

definition request_kind :: "event \<Rightarrow> string" where
  "request_kind ev = normaliseKind_handler (query_param ev ''kind'')"

text \<open>
  The dates of a synthetic intraday series are all in range: there is no round, or the
  oldest time stamp is a valid time value.
\<close>

definition intraday_stamps_valid :: "host \<Rightarrow> event \<Rightarrow> bool" where
  "intraday_stamps_valid h ev =
     (let limit = intraday_limit (query_param ev ''limit'');
          intervalMinutes =
            parseIntervalMinutes (case query_param ev ''interval'' of None \<Rightarrow> ''5min'' | Some s \<Rightarrow> s)
      in limit \<le> 0 \<or> valid_time (h_now h - (limit - 1) * intervalMinutes * 60 * 1000))"

section \<open>The handler of tiingo-data.js\<close>

text \<open>
  The second handler in the sources (the file that also exports the \<open>loadEod\<close> and
  \<open>loadNews\<close> stubs). It answers 500 without a token and whenever its \<open>try\<close> block
  throws. Values of the provider are passed through as they are.
\<close>

definition hex_chars :: string where
  "hex_chars = ''0123456789abcdefABCDEF''"

definition hex_value :: "char \<Rightarrow> int" where
  "hex_value c =
     (case map_of (zip hex_chars
             [0, 1, 2, 3, 4, 5, 6, 7, 8, 9, 10, 11, 12, 13, 14, 15, 10, 11, 12, 13, 14, 15]) c of
        Some d \<Rightarrow> d | None \<Rightarrow> 0)"

text \<open>\<open>parseInt(s)\<close> without a radix: a \<open>0x\<close> prefix selects base 16.\<close>

definition parseInt_auto :: "string \<Rightarrow> int option" where
  "parseInt_auto s =
     (let s1 = dropWhile is_ws s;
          negative = (case s1 of c # r \<Rightarrow> c = CHR ''-'' | [] \<Rightarrow> False);
          s2 = (case s1 of c # r \<Rightarrow> if c = CHR ''-'' \<or> c = CHR ''+'' then r else s1 | [] \<Rightarrow> []);
          hex = (take 2 s2 = ''0x'' \<or> take 2 s2 = ''0X'');
          ds = (if hex then takeWhile (\<lambda>c. c \<in> set hex_chars) (drop 2 s2) else takeWhile is_digit s2);
          n = double_of_int
                (if hex then foldl (\<lambda>a c. 16 * a + hex_value c) 0 ds else digits_value ds)
      in if ds = [] then None else Some (if negative then - n else n))"

definition clamp_limit_auto :: "string option \<Rightarrow> int \<Rightarrow> int \<Rightarrow> int" where
  "clamp_limit_auto param dflt hard =
     min (case (case param of None \<Rightarrow> None | Some s \<Rightarrow> parseInt_auto s) of
            None \<Rightarrow> dflt
          | Some n \<Rightarrow> if n = 0 then dflt else n)
         hard"

record quote8 =
  q8_symbol :: string
  q8_price :: js
  q8_previousClose :: js
  q8_change :: "real option"
  q8_changePercent :: "real option"
  q8_volume :: js
  q8_timestamp :: stamp

record row8 =
  r8_time :: js
  r8_open :: js
  r8_high :: js
  r8_low :: js
  r8_close :: js
  r8_volume :: js
  r8_adjClose :: "js option"

datatype data8 = QuoteData8 quote8 | Rows8 "row8 list" | NotYetImplemented8 "string option" string

record envelope8 =
  e8_symbol :: string
  e8_data :: data8
  e8_source :: string
  e8_timestamp :: stamp
  e8_kind :: "string option"

datatype body8 = EmptyBody8 | ErrorBody8 string | Envelope8 envelope8

record response8 =
  statusCode8 :: nat
  headers8 :: "(string \<times> string) list"
  body8 :: body8

text \<open>Arithmetic on values: \<open>None\<close> stands for a result that is not finite.\<close>

definition js_minus :: "coercion \<Rightarrow> js \<Rightarrow> js \<Rightarrow> real option" where
  "js_minus coerce a b =
     (case (ToNumber coerce a, ToNumber coerce b) of
        (Some x, Some y) \<Rightarrow> Some (fsub x y)
      | _ \<Rightarrow> None)"

definition quote_data8 :: "host \<Rightarrow> string \<Rightarrow> js \<Rightarrow> quote8" where
  "quote_data8 h symbol quote =
     \<lparr> q8_symbol = toUpperCase symbol,
       q8_price = or_else (get_prop quote ''last'') (or_else (get_prop quote ''tngoLast'') (JNum 0)),
       q8_previousClose = or_else (get_prop quote ''prevClose'') (JNum 0),
       q8_change = js_minus (h_coerce h) (or_else (get_prop quote ''last'') (JNum 0))
                     (or_else (get_prop quote ''prevClose'') (JNum 0)),
       q8_changePercent =
         (if truthy (get_prop quote ''prevClose'')
          then (case (js_minus (h_coerce h) (get_prop quote ''last'') (get_prop quote ''prevClose''),
                      ToNumber (h_coerce h) (get_prop quote ''prevClose'')) of
                  (Some d, Some p) \<Rightarrow> if p = 0 then None else Some (fmul (fdiv d p) 100)
                | _ \<Rightarrow> None)
          else Some 0),
       q8_volume = or_else (get_prop quote ''volume'') (JNum 0),
       q8_timestamp = (if truthy (get_prop quote ''timestamp'')
                       then Provided (get_prop quote ''timestamp'') else IsoTime (h_now h)) \<rparr>"

definition rows8 :: "bool \<Rightarrow> js list \<Rightarrow> string + row8 list" where
  "rows8 daily xs =
     (if list_ex nullish xs then Inl null_item_message
      else Inr (map (\<lambda>it. \<lparr> r8_time = get_prop it ''date'', r8_open = get_prop it ''open'',
                             r8_high = get_prop it ''high'', r8_low = get_prop it ''low'',
                             r8_close = get_prop it ''close'', r8_volume = get_prop it ''volume'',
                             r8_adjClose = (if daily then Some (get_prop it ''adjClose'') else None) \<rparr>)
                  xs))"

text \<open>The \<open>try\<close> block: the message of what it throws, or the data.\<close>

definition try_block8 :: "host \<Rightarrow> event \<Rightarrow> string \<Rightarrow> string \<Rightarrow> (string + data8) \<times> upstream list" where
  "try_block8 h ev symbol token =
     (let kind = query_param ev ''kind''
      in if kind = Some ''intraday_latest'' then
           (case h_fetch h (IexTickers symbol token) of
              NetworkError m \<Rightarrow> Inl m
            | Reply status (Inl m) \<Rightarrow> Inl m
            | Reply status (Inr rawData) \<Rightarrow>
                if \<not> response_ok status then Inl (''Tiingo API error: '' @ show_nat status)
                else
                  (let quote = (case rawData of
                                  JArr [] \<Rightarrow> JUndefined
                                | JArr (x # xs) \<Rightarrow> x
                                | _ \<Rightarrow> rawData)
                   in if \<not> truthy quote then Inl ''No data returned from Tiingo''
                      else Inr (QuoteData8 (quote_data8 h symbol quote))),
            [IexTickers symbol token])
         else if kind = Some ''intraday'' then
           (let interval = (case query_param ev ''interval'' of
                              None \<Rightarrow> ''5min'' | Some s \<Rightarrow> if s = [] then ''5min'' else s);
                limit = clamp_limit_auto (query_param ev ''limit'') 150 300;
                start = h_now h - 24 * 60 * 60 * 1000
            in if \<not> valid_time start then (Inl ''Invalid time value'', [])
               else
                 (case h_fetch h (IexPrices symbol start interval token) of
                    NetworkError m \<Rightarrow> Inl m
                  | Reply status (Inl m) \<Rightarrow> Inl m
                  | Reply status (Inr chartData) \<Rightarrow>
                      if \<not> response_ok status then Inl (''Tiingo API error: '' @ show_nat status)
                      else (case chartData of
                              JArr xs \<Rightarrow> map_sum id Rows8 (rows8 False (slice_from_end xs limit))
                            | _ \<Rightarrow> Inr (Rows8 [])),
                  [IexPrices symbol start interval token]))
         else if kind = Some ''eod'' then
           (let eodLimit = clamp_limit_auto (query_param ev ''limit'') 180 365;
                start = h_now h - eodLimit * 24 * 60 * 60 * 1000
            in if \<not> valid_time start then (Inl ''Invalid time value'', [])
               else
                 (case h_fetch h (DailyPrices symbol token start) of
                    NetworkError m \<Rightarrow> Inl m
                  | Reply status (Inl m) \<Rightarrow> Inl m
                  | Reply status (Inr eodData) \<Rightarrow>
                      if \<not> response_ok status then Inl (''Tiingo API error: '' @ show_nat status)
                      else (case eodData of
                              JArr xs \<Rightarrow> map_sum id Rows8 (rows8 True (slice_from_end xs eodLimit))
                            | _ \<Rightarrow> Inr (Rows8 [])),
                  [DailyPrices symbol token start]))
         else if kind \<in> Some ` set document_kinds then (Inr (Rows8 []), [])
         else (Inr (NotYetImplemented8 kind symbol), []))"

definition handler_data :: "host \<Rightarrow> event \<Rightarrow> response8 \<times> upstream list" where
  "handler_data h ev =
     (if httpMethod ev = ''OPTIONS''
      then (\<lparr> statusCode8 = 200, headers8 = baseHeaders, body8 = EmptyBody8 \<rparr>, [])
      else
        (case query_param ev ''symbol'' of
           None \<Rightarrow>
             (\<lparr> statusCode8 = 400, headers8 = baseHeaders,
                body8 = ErrorBody8 ''Missing symbol parameter'' \<rparr>, [])
         | Some symbol \<Rightarrow>
             if symbol = [] then
               (\<lparr> statusCode8 = 400, headers8 = baseHeaders,
                  body8 = ErrorBody8 ''Missing symbol parameter'' \<rparr>, [])
             else
               (case truthy_token h of
                  None \<Rightarrow>
                    (\<lparr> statusCode8 = 500, headers8 = baseHeaders,
                       body8 = ErrorBody8 ''TIINGO_KEY not configured'' \<rparr>, [])
                | Some token \<Rightarrow>
                    (case try_block8 h ev symbol token of
                       (Inl message, reqs) \<Rightarrow>
                         (\<lparr> statusCode8 = 500, headers8 = baseHeaders, body8 = ErrorBody8 message \<rparr>,
                          reqs)
                     | (Inr data, reqs) \<Rightarrow>
                         (\<lparr> statusCode8 = 200, headers8 = baseHeaders,
                            body8 = Envelope8
                              \<lparr> e8_symbol = toUpperCase symbol, e8_data = data, e8_source = ''live'',
                                e8_timestamp = IsoTime (h_now h),
                                e8_kind = query_param ev ''kind'' \<rparr> \<rparr>,
                          reqs)))))"

text \<open>
  A host without a token and with a silent network, some time in 2023; requests for the
  news and for an intraday series at an interval of 10^15 minutes.
\<close>

definition quiet_host :: host where
  "quiet_host =
     \<lparr> h_token = None, h_now = 1700000000000, h_random = (\<lambda>i. 1 / 2),
       h_fetch = (\<lambda>u. NetworkError ''fetch failed''), h_coerce = (\<lambda>v. None),
       h_stringify = (\<lambda>v. []) \<rparr>"

definition news_request :: event where
  "news_request =
     \<lparr> httpMethod = ''GET'',
       queryStringParameters = Some [(''symbol'', ''AAPL''), (''kind'', ''news'')] \<rparr>"

definition wide_interval_request :: event where
  "wide_interval_request =
     \<lparr> httpMethod = ''GET'',
       queryStringParameters =
         Some [(''symbol'', ''AAPL''), (''kind'', ''intraday''), (''limit'', ''2''),
               (''interval'', ''1000000000000000min'')] \<rparr>"

text \<open>A preflight request without parameters, and a request for the latest quote.\<close>

definition preflight_request :: event where
  "preflight_request = \<lparr> httpMethod = ''OPTIONS'', queryStringParameters = None \<rparr>"

definition quote_request :: event where
  "quote_request =
     \<lparr> httpMethod = ''GET'',
       queryStringParameters = Some [(''symbol'', ''AAPL''), (''kind'', ''intraday_latest'')] \<rparr>"

definition intraday_request :: event where
  "intraday_request =
     \<lparr> httpMethod = ''GET'',
       queryStringParameters = Some [(''symbol'', ''AAPL''), (''kind'', ''intraday'')] \<rparr>"

text \<open>The same host with a token configured.\<close>

definition keyed_host :: host where
  "keyed_host = quiet_host\<lparr> h_token := Some ''0123456789abcdef0123456789abcdef01234567'' \<rparr>"

text \<open>Observers of a handler's result: the envelope of its response, if it has one.\<close>

definition envelope_of :: "uncaught + (response \<times> upstream list) \<Rightarrow> envelope option" where
  "envelope_of result =
     (case result of
        Inl e \<Rightarrow> None
      | Inr (resp, reqs) \<Rightarrow> (case body resp of Envelope env \<Rightarrow> Some env | _ \<Rightarrow> None))"

section \<open>Properties\<close>

lemmas string_defs = trim_def is_ws_def toLowerCase_def toUpperCase_def lower_char_def upper_char_def
  upper_chars_def upper_letters_def lower_letters_def latin_upper_def latin_lower_def

lemmas snapshot_defs = snapshot_quote_def snapshot_fundamentals_def
  snapshot_metrics_def snapshot_price_def snapshot_eps_def snapshot_revenuePerShare_def
  snapshot_bookValuePerShare_def snapshot_fcfPerShare_def getLatestQuote_def is_object_def
  or_else_def coalesce_def number_or_null_def number_or_zero_def

subsection \<open>Rounding to the nearest double\<close>

lemma rne_cases: "rne y = \<lfloor>y\<rfloor> \<or> rne y = \<lfloor>y\<rfloor> + 1"
  by (simp add: rne_def Let_def)

lemma rne_near: "\<bar>of_int (rne y) - y\<bar> \<le> 1 / 2"
  unfolding rne_def Let_def by (auto simp: abs_if) linarith+

lemma rne_of_int [simp]: "rne (of_int n) = n"
  by (simp add: rne_def)

lemma rne_mono:
  assumes "a \<le> b" shows "rne a \<le> rne b"
proof (cases "\<lfloor>a\<rfloor> < \<lfloor>b\<rfloor>")
  case True
  have "rne a \<le> \<lfloor>a\<rfloor> + 1" using rne_cases[of a] by auto
  also have "\<dots> \<le> \<lfloor>b\<rfloor>" using True by simp
  also have "\<dots> \<le> rne b" using rne_cases[of b] by auto
  finally show ?thesis .
next
  case False
  with assms have eq: "\<lfloor>a\<rfloor> = \<lfloor>b\<rfloor>" by (simp add: floor_mono order_antisym)
  with assms show ?thesis by (auto simp: rne_def Let_def)
qed



lemma binade_pos_cases:
  assumes "0 < x" "x < 1"
  obtains m where "1 \<le> m" "binade x = - m" "1 / x \<le> 2 ^ nat m" "2 ^ nat (m - 1) < 1 / x"
proof -
  define y where "y = 1 / x"
  have y1: "1 < y" using assms by (simp add: y_def)
  define b where "b = \<lceil>y\<rceil> - 1"
  have b0: "0 < b" using y1 by (simp add: b_def less_ceiling_iff)
  define m where "m = bitlen b"
  have m1: "1 \<le> m" using b0 bitlen_eq_zero_iff[of b] bitlen_nonneg[of b] unfolding m_def by linarith
  from bitlen_bounds[OF b0] have bb: "2 ^ nat (m - 1) \<le> b" "b < 2 ^ nat m"
    by (simp_all add: m_def)
  have "y \<le> of_int \<lceil>y\<rceil>" by simp
  also have "\<lceil>y\<rceil> = b + 1" by (simp add: b_def)
  also have "(of_int (b + 1) :: real) \<le> of_int (2 ^ nat m)"
    using bb(2) by (simp only: of_int_le_iff; (simp)?)
  finally have up: "y \<le> 2 ^ nat m" by simp
  have "(of_int (2 ^ nat (m - 1)) :: real) \<le> of_int b" using bb(1) by (simp only: of_int_le_iff)
  then have "(2::real) ^ nat (m - 1) \<le> of_int b" by simp
  moreover have "of_int b < y" unfolding b_def by linarith
  ultimately have lo: "2 ^ nat (m - 1) < y" by linarith
  have "binade x = - m" using assms by (simp add: binade_def m_def b_def y_def)
  with m1 up lo that show thesis by (simp add: y_def)
qed

lemma binade_bounds:
  assumes "0 < x"
  shows "2 powi (binade x) \<le> x" "x < 2 powi (binade x + 1)"
proof -
  show "2 powi (binade x) \<le> x"
  proof (cases "1 \<le> x")
    case True
    then have n: "0 < \<lfloor>x\<rfloor>" by simp
    have b1: "1 \<le> bitlen \<lfloor>x\<rfloor>" using n bitlen_eq_zero_iff[of "\<lfloor>x\<rfloor>"] bitlen_nonneg[of "\<lfloor>x\<rfloor>"] by linarith
    have "(2::real) powi (bitlen \<lfloor>x\<rfloor> - 1) = 2 ^ nat (bitlen \<lfloor>x\<rfloor> - 1)"
      using b1 by (simp add: power_int_nonneg_exp)
    also have "\<dots> = of_int (2 ^ nat (bitlen \<lfloor>x\<rfloor> - 1))" by simp
    also have "\<dots> \<le> of_int \<lfloor>x\<rfloor>" using bitlen_bounds[OF n] by (simp only: of_int_le_iff)
    also have "\<dots> \<le> x" by simp
    finally show ?thesis using True \<open>0 < x\<close> by (simp add: binade_def)
  next
    case False
    with assms have x1: "x < 1" by simp
    from binade_pos_cases[OF assms x1] obtain m where m: "1 \<le> m" "binade x = - m"
      "1 / x \<le> 2 ^ nat m" "2 ^ nat (m - 1) < 1 / x" by blast
    have "(2::real) powi (- m) = 1 / 2 ^ nat m" using m(1) by (simp add: power_int_def field_simps)
    also have "\<dots> \<le> x" using m(3) assms by (simp add: field_simps)
    finally show ?thesis by (simp add: m(2))
  qed
  show "x < 2 powi (binade x + 1)"
  proof (cases "1 \<le> x")
    case True
    then have n: "0 < \<lfloor>x\<rfloor>" by simp
    have "x < of_int (\<lfloor>x\<rfloor> + 1)" by linarith
    also have "(of_int (\<lfloor>x\<rfloor> + 1) :: real) \<le> of_int (2 ^ nat (bitlen \<lfloor>x\<rfloor>))"
      using bitlen_bounds[OF n] by (simp only: of_int_le_iff; (simp)?)
    also have "\<dots> = 2 powi (bitlen \<lfloor>x\<rfloor>)" by (simp add: power_int_nonneg_exp bitlen_nonneg)
    finally show ?thesis using True \<open>0 < x\<close> by (simp add: binade_def)
  next
    case False
    with assms have x1: "x < 1" by simp
    from binade_pos_cases[OF assms x1] obtain m where m: "1 \<le> m" "binade x = - m"
      "1 / x \<le> 2 ^ nat m" "2 ^ nat (m - 1) < 1 / x" by blast
    have "x < 1 / 2 ^ nat (m - 1)" using m(4) assms by (simp add: field_simps)
    also have "\<dots> = (2::real) powi (- m + 1)"
      using m(1) by (simp add: power_int_def field_simps nat_diff_distrib)
    finally show ?thesis by (simp add: m(2))
  qed
qed

lemma binade_unique:
  assumes "0 < x" "2 powi k \<le> x" "x < 2 powi (k + 1)"
  shows "binade x = k"
proof (rule order_antisym)
  have "(2::real) powi (binade x) < 2 powi (k + 1)" using binade_bounds(1)[OF assms(1)] assms(3) by simp
  then have "binade x < k + 1" by (smt (verit) power_int_increasing)
  then show "binade x \<le> k" by simp
  have "(2::real) powi k < 2 powi (binade x + 1)" using binade_bounds(2)[OF assms(1)] assms(2) by simp
  then have "k < binade x + 1" by (smt (verit) power_int_increasing)
  then show "k \<le> binade x" by simp
qed

lemma binade_mono:
  assumes "0 < x" "x \<le> y"
  shows "binade x \<le> binade y"
proof -
  have "(2::real) powi (binade x) < 2 powi (binade y + 1)"
    using binade_bounds(1)[OF assms(1)] binade_bounds(2)[of y] assms by simp
  then have "binade x < binade y + 1" by (smt (verit) power_int_increasing)
  then show ?thesis by simp
qed

lemma binade_abs [simp]: "binade (- x) = binade x"
  by (simp add: binade_def)

lemma ulp_pos [simp]: "0 < ulp x"
  by (simp add: ulp_def zero_less_power_int)

lemma ulp_minus [simp]: "ulp (- x) = ulp x"
  by (simp add: ulp_def)

lemma ulp_nonneg [simp]: "0 \<le> ulp x"
  using ulp_pos[of x] by linarith

lemma ulp_neq0 [simp]: "ulp x \<noteq> 0"
  using ulp_pos[of x] by linarith

lemma rne_zero [simp]: "rne 0 = 0"
  by (simp add: rne_def)

lemma rd_zero [simp]: "rd 0 = 0"
  by (simp add: rd_def)

lemma rd_near: "\<bar>rd x - x\<bar> \<le> ulp x / 2"
proof -
  have "rd x - x = (of_int (rne (x / ulp x)) - x / ulp x) * ulp x"
    by (simp add: rd_def algebra_simps)
  then have "\<bar>rd x - x\<bar> = \<bar>of_int (rne (x / ulp x)) - x / ulp x\<bar> * ulp x"
    by (simp add: abs_mult)
  also have "\<dots> \<le> 1 / 2 * ulp x"
    by (intro mult_right_mono rne_near) simp
  finally show ?thesis by simp
qed

lemma rd_ge_grid:
  assumes "of_int n * ulp y \<le> y"
  shows "of_int n * ulp y \<le> rd y"
proof -
  have "of_int n \<le> y / ulp y" using assms by (simp add: pos_le_divide_eq)
  then have "rne (of_int n) \<le> rne (y / ulp y)" by (rule rne_mono)
  then have "(of_int n :: real) \<le> of_int (rne (y / ulp y))" by simp
  then show ?thesis unfolding rd_def by (intro mult_right_mono) simp_all
qed

lemma rd_le_grid:
  assumes "x \<le> of_int n * ulp x"
  shows "rd x \<le> of_int n * ulp x"
proof -
  have "x / ulp x \<le> of_int n" using assms by (simp add: pos_divide_le_eq)
  then have "rne (x / ulp x) \<le> rne (of_int n)" by (rule rne_mono)
  then have "(of_int (rne (x / ulp x)) :: real) \<le> of_int n" by simp
  then show ?thesis unfolding rd_def by (intro mult_right_mono) simp_all
qed

lemma rd_nonneg: "0 \<le> x \<Longrightarrow> 0 \<le> rd x"
  using rd_ge_grid[of 0 x] by simp

lemma rd_nonpos: "x \<le> 0 \<Longrightarrow> rd x \<le> 0"
  using rd_le_grid[of x 0] by simp

lemma rd_mono_pos:
  assumes "0 < x" "x \<le> y"
  shows "rd x \<le> rd y"
proof -
  define ex where "ex = max (binade x) (- 1022)"
  define ey where "ey = max (binade y) (- 1022)"
  have y0: "0 < y" using assms by simp
  have ux: "ulp x = 2 powi (ex - 52)" and uy: "ulp y = 2 powi (ey - 52)"
    by (simp_all add: ulp_def ex_def ey_def)
  have le: "ex \<le> ey" using binade_mono[OF assms] by (simp add: ex_def ey_def)
  show ?thesis
  proof (cases "ex = ey")
    case True
    then have u: "ulp x = ulp y" by (simp add: ux uy)
    have "x / ulp y \<le> y / ulp y" using assms by (intro divide_right_mono) simp_all
    then have "rne (x / ulp y) \<le> rne (y / ulp y)" by (rule rne_mono)
    then have "(of_int (rne (x / ulp y)) :: real) \<le> of_int (rne (y / ulp y))" by simp
    then show ?thesis unfolding rd_def u by (intro mult_right_mono) simp_all
  next
    case False
    with le have lt: "ex < ey" by simp
    then have bey: "ey = binade y" unfolding ex_def ey_def by linarith
    have "x < 2 powi (binade x + 1)" by (rule binade_bounds(2)[OF assms(1)])
    also have "\<dots> \<le> 2 powi (ex + 1)" by (intro power_int_increasing) (simp_all add: ex_def)
    finally have "x \<le> 2 powi (ex + 1)" by simp
    also have "(2::real) powi (ex + 1) = of_int (2 ^ 53) * 2 powi (ex - 52)"
      by (simp add: power_int_diff power_int_add)
    finally have "x \<le> of_int (2 ^ 53) * ulp x" by (simp only: ux)
    then have "rd x \<le> of_int (2 ^ 53) * ulp x" by (rule rd_le_grid)
    also have "\<dots> = 2 powi (ex + 1)" by (simp add: ux power_int_diff power_int_add)
    also have "\<dots> \<le> 2 powi ey" using lt by (intro power_int_increasing) simp_all
    also have "(2::real) powi ey = of_int (2 ^ 52) * ulp y"
      by (simp add: uy power_int_diff)
    also have "\<dots> \<le> rd y"
    proof (rule rd_ge_grid)
      have "of_int (2 ^ 52) * ulp y = 2 powi (binade y)" by (simp add: uy bey power_int_diff)
      also have "\<dots> \<le> y" by (rule binade_bounds(1)[OF y0])
      finally show "of_int (2 ^ 52) * ulp y \<le> y" .
    qed
    finally show ?thesis .
  qed
qed

lemma rd_mono:
  assumes "0 \<le> x" "x \<le> y"
  shows "rd x \<le> rd y"
proof (cases "x = 0")
  case True
  with assms show ?thesis by (simp add: rd_nonneg)
next
  case False
  with assms show ?thesis by (intro rd_mono_pos) simp_all
qed

lemma ulp_le:
  assumes "x \<noteq> 0"
  shows "ulp x \<le> max (\<bar>x\<bar> / 2 ^ 52) (1 / 2 ^ 1074)"
proof (cases "- 1022 \<le> binade x")
  case True
  have "binade \<bar>x\<bar> = binade x" by (simp add: binade_def)
  with binade_bounds(1)[of "\<bar>x\<bar>"] assms have "2 powi (binade x) \<le> \<bar>x\<bar>" by simp
  moreover have "ulp x = 2 powi (binade x) / 2 ^ 52"
    using True by (simp add: ulp_def max_def power_int_diff)
  ultimately have "ulp x \<le> \<bar>x\<bar> / 2 ^ 52" by (simp add: divide_right_mono)
  then show ?thesis by simp
next
  case False
  then have "ulp x = 2 powi (- 1074)" by (simp add: ulp_def max_def)
  also have "\<dots> = 1 / 2 ^ 1074" by (simp add: power_int_def field_simps)
  finally show ?thesis by simp
qed

lemma rd_close:
  assumes "\<bar>x\<bar> \<le> 2 ^ 40"
  shows "\<bar>rd x - x\<bar> \<le> 1 / 2 ^ 13"
proof (cases "x = 0")
  case True
  then show ?thesis by simp
next
  case False
  have "\<bar>x\<bar> / 2 ^ 52 \<le> 2 ^ 40 / 2 ^ 52" using assms by (intro divide_right_mono) simp_all
  also have "\<dots> = (1 / 2 ^ 12 :: real)" by simp
  finally have a: "\<bar>x\<bar> / 2 ^ 52 \<le> 1 / 2 ^ 12" .
  have b: "(1 / 2 ^ 1074 :: real) \<le> 1 / 2 ^ 12" by (intro divide_left_mono power_increasing) simp_all
  from ulp_le[OF False] a b have "ulp x \<le> 1 / 2 ^ 12" by (simp add: max_def split: if_splits)
  with rd_near[of x] show ?thesis by simp
qed

lemma rd_bound: "\<bar>rd x\<bar> \<le> 2 * \<bar>x\<bar> + 1"
proof (cases "x = 0")
  case True
  then show ?thesis by simp
next
  case False
  have "(1 / 2 ^ 1074 :: real) \<le> 1 / 2 ^ 0" by (intro divide_left_mono power_increasing) simp_all
  moreover have "\<bar>x\<bar> / 2 ^ 52 \<le> \<bar>x\<bar> / 1" by (intro divide_left_mono) simp_all
  ultimately have "ulp x \<le> \<bar>x\<bar> + 1" using ulp_le[OF False] by (simp add: max_def split: if_splits)
  with rd_near[of x] show ?thesis by linarith
qed

lemma rd_1 [simp]: "rd 1 = 1" by code_simp
lemma rd_2: "rd 2 = 2" by code_simp
lemma rd_4: "rd 4 = 4" by code_simp
lemma rd_415: "rd 415 = 415" by code_simp

lemma toFixed_grid:
  assumes "\<bar>y\<bar> < 10 ^ 21"
  shows "\<exists>k::int. toFixed d y = rd (of_int k / 10 ^ d) \<and> \<bar>of_int k / 10 ^ d - y\<bar> \<le> 1 / (2 * 10 ^ d)
           \<and> (0 \<le> y \<longrightarrow> 0 \<le> k)"
proof -
  define n where "n = \<lfloor>\<bar>y\<bar> * 10 ^ d + 1 / 2\<rfloor>"
  define k where "k = (if y < 0 then - n else n)"
  have n0: "0 \<le> n" unfolding n_def by simp
  have s: "sgn y * of_int n / 10 ^ d = of_int k / 10 ^ d"
    by (cases "y = 0") (auto simp: k_def n_def sgn_if)
  have tf: "toFixed d y = rd (of_int k / 10 ^ d)"
    using assms by (simp add: toFixed_def s[unfolded n_def])
  have "of_int n \<le> \<bar>y\<bar> * 10 ^ d + 1 / 2" "\<bar>y\<bar> * 10 ^ d + 1 / 2 < of_int n + 1"
    unfolding n_def by linarith+
  then have "\<bar>of_int n - \<bar>y\<bar> * 10 ^ d\<bar> \<le> 1 / 2" by linarith
  then have "\<bar>of_int n - \<bar>y\<bar> * 10 ^ d\<bar> / 10 ^ d \<le> (1 / 2) / 10 ^ d"
    by (intro divide_right_mono) simp_all
  moreover have "of_int n / 10 ^ d - \<bar>y\<bar> = (of_int n - \<bar>y\<bar> * 10 ^ d) / 10 ^ d"
    by (simp add: field_simps)
  then have "\<bar>of_int n / 10 ^ d - \<bar>y\<bar>\<bar> = \<bar>of_int n - \<bar>y\<bar> * 10 ^ d\<bar> / 10 ^ d"
    by (simp only: abs_divide) simp
  ultimately have "\<bar>of_int n / 10 ^ d - \<bar>y\<bar>\<bar> \<le> 1 / (2 * 10 ^ d)"
    by simp
  then have near: "\<bar>of_int k / 10 ^ d - y\<bar> \<le> 1 / (2 * 10 ^ d)"
    by (auto simp: k_def abs_if split: if_splits)
  have "0 \<le> y \<longrightarrow> 0 \<le> k" using n0 by (simp add: k_def)
  with tf near show ?thesis by blast
qed

subsection \<open>C4: kind canonicalisation\<close>

text \<open>
  C4 (amended). The mock loader's \<open>normaliseKind\<close> canonicalises through the alias
  table: \<open>quote\<close> and \<open>quotes\<close> become \<open>intraday_latest\<close>, an absent kind becomes
  \<open>eod\<close>, and so does every kind that, lower-cased, is neither a key of the table nor a
  member name inherited from \<open>Object.prototype\<close>. The request handler's own
  \<open>normaliseKind\<close> has no alias table: it trims and lower-cases, and only an absent or
  blank kind is replaced, by \<open>intraday_latest\<close>.
\<close>

theorem C4_kind_aliases:
  "normaliseKind_mock (Some ''quote'') = Str ''intraday_latest'' \<and>
   normaliseKind_mock (Some ''quotes'') = Str ''intraday_latest'' \<and>
   normaliseKind_mock None = Str ''eod'' \<and>
   (\<forall>k. map_of KIND_ALIASES (toLowerCase k) = None \<and> toLowerCase k \<notin> set Object_prototype_keys
        \<longrightarrow> normaliseKind_mock (Some k) = Str ''eod'') \<and>
   normaliseKind_handler None = ''intraday_latest'' \<and>
   (\<forall>k. normaliseKind_handler (Some k) =
        (if trim k = [] then ''intraday_latest'' else toLowerCase (trim k)))"
proof (intro conjI allI impI)
  show "normaliseKind_mock (Some ''quote'') = Str ''intraday_latest''"
    by (simp add: normaliseKind_mock_def object_get_def KIND_ALIASES_def string_defs)
  show "normaliseKind_mock (Some ''quotes'') = Str ''intraday_latest''"
    by (simp add: normaliseKind_mock_def object_get_def KIND_ALIASES_def string_defs)
  show eod: "normaliseKind_mock None = Str ''eod''"
    by (simp add: normaliseKind_mock_def object_get_def KIND_ALIASES_def string_defs)
  show "normaliseKind_handler None = ''intraday_latest''"
    by (simp add: normaliseKind_handler_def string_defs)
next
  fix k
  assume h: "map_of KIND_ALIASES (toLowerCase k) = None \<and> toLowerCase k \<notin> set Object_prototype_keys"
  show "normaliseKind_mock (Some k) = Str ''eod''"
  proof (cases "k = []")
    case True
    then show ?thesis
      by (simp add: normaliseKind_mock_def object_get_def KIND_ALIASES_def string_defs)
  next
    case False
    with h show ?thesis by (simp add: normaliseKind_mock_def object_get_def)
  qed
next
  fix k
  show "normaliseKind_handler (Some k) =
        (if trim k = [] then ''intraday_latest'' else toLowerCase (trim k))"
    by (simp add: normaliseKind_handler_def toLowerCase_def)
qed

text \<open>The unrecognised kind \<open>Bogus\<close> meets the hypotheses and maps to \<open>eod\<close>.\<close>

theorem C4_witness:
  "map_of KIND_ALIASES (toLowerCase ''Bogus'') = None \<and>
   toLowerCase ''Bogus'' \<notin> set Object_prototype_keys \<and>
   normaliseKind_mock (Some ''Bogus'') = Str ''eod''"
proof -
  have h: "map_of KIND_ALIASES (toLowerCase ''Bogus'') = None \<and>
           toLowerCase ''Bogus'' \<notin> set Object_prototype_keys"
    by (simp add: KIND_ALIASES_def Object_prototype_keys_def string_defs)
  from C4_kind_aliases have
    "\<forall>k. map_of KIND_ALIASES (toLowerCase k) = None \<and> toLowerCase k \<notin> set Object_prototype_keys
        \<longrightarrow> normaliseKind_mock (Some k) = Str ''eod''"
    by blast
  with h show ?thesis by blast
qed

text \<open>An inherited member is returned as it is: the result is not a kind string.\<close>

lemma normaliseKind_mock_constructor: "normaliseKind_mock (Some ''constructor'') = Inherited ''constructor''"
    by (simp add: normaliseKind_mock_def object_get_def KIND_ALIASES_def string_defs Object_prototype_keys_def)


text \<open>
  C4, as stated, fails on the request handler's own \<open>normaliseKind\<close>: an absent kind
  becomes \<open>intraday_latest\<close>, not \<open>eod\<close>, and \<open>quote\<close> stays \<open>quote\<close>.
\<close>

theorem C4_counterexample:
  "normaliseKind_handler None \<noteq> ''eod'' \<and> normaliseKind_handler (Some ''quote'') \<noteq> ''intraday_latest''"
  by (simp add: normaliseKind_handler_def trim_def is_ws_def toLowerCase_def lower_char_def
      upper_letters_def lower_letters_def)

subsection \<open>C7: the valuation snapshot\<close>












subsection \<open>C6: the quote invariant\<close>

lemma rd_between:
  assumes "0 \<le> a" "a \<le> x" "x \<le> b" "rd a = a" "rd b = b"
  shows "a \<le> rd x" "rd x \<le> b"
  using rd_mono[of a x] rd_mono[of x b] assms by simp_all

lemma base_price_bounds: "0 < base_price s m \<and> base_price s m \<le> 415"
proof -
  have "\<forall>kv \<in> set BASE_PRICE_MAP. 4 \<le> snd kv \<and> snd kv \<le> 415"
    unfolding BASE_PRICE_MAP_def
    by (simp add: rd_between[OF _ _ _ rd_4 rd_415])
  then have "map_of BASE_PRICE_MAP k = Some p \<Longrightarrow> 4 \<le> p \<and> p \<le> 415" for k p
    by (auto dest!: map_of_SomeD)
  then show ?thesis
    by (fastforce simp: base_price_def Let_def split: option.splits)
qed

text \<open>A factor \<open>c + r * d\<close> or \<open>1 - r * d\<close> of the generator, for constants up to 1.\<close>

lemma unit_product:
  assumes "0 \<le> r" "r < 1" "0 \<le> d" "d \<le> 1"
  shows "0 \<le> fmul r (rd d)" "fmul r (rd d) \<le> 1"
proof -
  have d: "0 \<le> rd d" "rd d \<le> 1" using rd_between[of 0 d 1] assms by simp_all
  have "0 \<le> r * rd d" using assms d by simp
  moreover have "r * rd d \<le> 1 * 1" using assms d by (intro mult_mono) simp_all
  ultimately show "0 \<le> fmul r (rd d)" "fmul r (rd d) \<le> 1"
    using rd_between[of 0 "r * rd d" 1] by (simp_all add: fmul_def)
qed

lemma factor_bounds:
  assumes "0 \<le> r" "r < 1" "0 \<le> d" "d \<le> 1" "0 \<le> c" "c \<le> 1"
  shows "0 \<le> fadd (rd c) (fmul r (rd d))" "fadd (rd c) (fmul r (rd d)) \<le> 2"
proof -
  have c: "0 \<le> rd c" "rd c \<le> 1" using rd_between[of 0 c 1] assms by simp_all
  note t = unit_product[OF assms(1-4)]
  have "0 \<le> rd c + fmul r (rd d)" "rd c + fmul r (rd d) \<le> 2" using c t by simp_all
  then show "0 \<le> fadd (rd c) (fmul r (rd d))" "fadd (rd c) (fmul r (rd d)) \<le> 2"
    using rd_between[of 0 "rd c + fmul r (rd d)" 2] by (simp_all add: fadd_def rd_2)
qed

lemma up_factor:
  assumes "0 \<le> r" "r < 1" "0 \<le> d" "d \<le> 1"
  shows "1 \<le> fadd 1 (fmul r (rd d))" "fadd 1 (fmul r (rd d)) \<le> 2"
proof -
  note t = unit_product[OF assms]
  have "1 \<le> 1 + fmul r (rd d)" "1 + fmul r (rd d) \<le> 2" using t by simp_all
  then show "1 \<le> fadd 1 (fmul r (rd d))" "fadd 1 (fmul r (rd d)) \<le> 2"
    using rd_between[of 1 "1 + fmul r (rd d)" 2] by (simp_all add: fadd_def rd_2)
qed

lemma down_factor:
  assumes "0 \<le> r" "r < 1" "0 \<le> d" "d \<le> 1"
  shows "0 \<le> fsub 1 (fmul r (rd d))" "fsub 1 (fmul r (rd d)) \<le> 1"
proof -
  note t = unit_product[OF assms]
  have "0 \<le> 1 - fmul r (rd d)" "1 - fmul r (rd d) \<le> 1" using t by simp_all
  then show "0 \<le> fsub 1 (fmul r (rd d))" "fsub 1 (fmul r (rd d)) \<le> 1"
    using rd_between[of 0 "1 - fmul r (rd d)" 1] by (simp_all add: fsub_def)
qed

text \<open>A price of the generator: a product of a bounded price and a factor up to 2.\<close>

lemma price_product:
  assumes "0 \<le> x" "x \<le> b" "0 \<le> f" "f \<le> 2"
  shows "0 \<le> fmul x f" "fmul x f \<le> 4 * b + 1"
proof -
  have "0 \<le> x * f" using assms by simp
  then show "0 \<le> fmul x f" unfolding fmul_def by (rule rd_nonneg)
  have "x * f \<le> b * 2" using assms by (intro mult_mono) simp_all
  moreover have "\<bar>rd (x * f)\<bar> \<le> 2 * \<bar>x * f\<bar> + 1" by (rule rd_bound)
  ultimately show "fmul x f \<le> 4 * b + 1" using \<open>0 \<le> x * f\<close> by (simp add: fmul_def)
qed

text \<open>What \<open>toFixed(2)\<close> makes of a price up to \<open>2^30\<close>.\<close>

lemma toFixed2_price:
  assumes "0 \<le> y" "y \<le> b" "b \<le> 2 ^ 30"
  obtains k :: int where "0 \<le> k" "toFixed 2 y = rd (of_int k / 100)"
    "(of_int k / 100 :: real) \<le> 2 ^ 31" "0 \<le> toFixed 2 y" "toFixed 2 y \<le> 2 * b + 2"
proof -
  have "\<bar>y\<bar> < 10 ^ 21" using assms by simp
  from toFixed_grid[OF this, of 2] assms(1) obtain k :: int
    where k: "toFixed 2 y = rd (of_int k / 100)" "\<bar>of_int k / 100 - y\<bar> \<le> 1 / 200" "0 \<le> k"
    by auto
  define z :: real where "z = of_int k / 100"
  have nn: "0 \<le> z" using k(3) by (simp add: z_def)
  have zb: "z \<le> b + 1 / 200" using k(2) assms(2) unfolding z_def by linarith
  with assms have b: "z \<le> 2 ^ 31" by simp
  have r0: "0 \<le> rd z" using nn by (rule rd_nonneg)
  have "\<bar>rd z\<bar> \<le> 2 * \<bar>z\<bar> + 1" by (rule rd_bound)
  with zb nn have r1: "rd z \<le> 2 * b + 2" by simp
  show thesis using that[OF k(3) k(1)] b r0 r1 unfolding z_def k(1) by blast
qed

lemma toFixed2_ge:
  assumes "0 \<le> k" "(of_int k / 100 :: real) \<le> 2 ^ 31" "rd (of_int k / 100) - 1 / 2 ^ 13 \<le> y"
    "y \<le> 2 ^ 40"
  shows "rd (of_int k / 100) \<le> toFixed 2 y"
proof -
  define z :: real where "z = of_int k / 100"
  have kz: "of_int k = 100 * z" by (simp add: z_def)
  have nn: "0 \<le> z" using assms(1) by (simp add: z_def)
  have zb: "\<bar>z\<bar> \<le> 2 ^ 40" using nn assms(2) unfolding z_def[symmetric] by simp
  have "\<bar>rd z - z\<bar> \<le> 1 / 2 ^ 13" using zb by (rule rd_close)
  moreover have "(1 / 2 ^ 12 :: real) = 1 / 2 ^ 13 + 1 / 2 ^ 13" by simp
  ultimately have lo: "z - 1 / 2 ^ 12 \<le> y" using assms(3) unfolding z_def[symmetric] by linarith
  then have y0: "- (1 / 2 ^ 12) \<le> y" using nn by linarith
  have small: "\<bar>y\<bar> < 10 ^ 21" using assms(4) y0 by (simp add: abs_if)
  have "(1 / 2 ^ 12 :: real) \<le> 1 / 200" by simp
  with lo have "100 * z \<le> y * 100 + 1 / 2" by linarith
  moreover have "y * 100 \<le> \<bar>y\<bar> * 100" by simp
  ultimately have "of_int k \<le> \<bar>y\<bar> * 10 ^ 2 + 1 / 2" unfolding kz by simp
  then have kf: "k \<le> \<lfloor>\<bar>y\<bar> * 10 ^ 2 + 1 / 2\<rfloor>" by (simp only: le_floor_iff)
  show ?thesis
  proof (cases "0 < y")
    case True
    have "(of_int k :: real) \<le> of_int \<lfloor>\<bar>y\<bar> * 10 ^ 2 + 1 / 2\<rfloor>" using kf by (simp only: of_int_le_iff)
    then have "of_int k / 100 \<le> of_int \<lfloor>\<bar>y\<bar> * 10 ^ 2 + 1 / 2\<rfloor> / (100 :: real)"
      by (rule divide_right_mono) simp
    then have "z \<le> sgn y * of_int \<lfloor>\<bar>y\<bar> * 10 ^ 2 + 1 / 2\<rfloor> / 10 ^ 2"
      using True by (simp add: z_def)
    then have "rd z \<le> rd (sgn y * of_int \<lfloor>\<bar>y\<bar> * 10 ^ 2 + 1 / 2\<rfloor> / 10 ^ 2)"
      using nn by (intro rd_mono)
    with small show ?thesis unfolding z_def by (simp only: toFixed_def) simp
  next
    case False
    then have y: "y \<le> 0" by simp
    with lo have "100 * z < 1" by simp
    then have "(of_int k :: real) < 1" unfolding kz .
    then have "k < 1" by (simp only: of_int_less_1_iff)
    then have k0: "k = 0" using assms(1) by simp
    have "\<bar>y\<bar> * 100 + 1 / 2 < 1" using y y0 by (simp add: abs_if)
    then have "\<lfloor>\<bar>y\<bar> * 10 ^ 2 + 1 / 2\<rfloor> = 0" by (simp add: floor_eq_iff)
    with k0 small show ?thesis by (simp only: toFixed_def) simp
  qed
qed

lemma toFixed2_le:
  assumes "0 \<le> k" "(of_int k / 100 :: real) \<le> 2 ^ 31" "0 \<le> y"
    "y \<le> rd (of_int k / 100) + 1 / 2 ^ 13"
  shows "toFixed 2 y \<le> rd (of_int k / 100)"
proof -
  define z :: real where "z = of_int k / 100"
  have kz: "of_int k = 100 * z" by (simp add: z_def)
  have nn: "0 \<le> z" using assms(1) by (simp add: z_def)
  have zb: "\<bar>z\<bar> \<le> 2 ^ 40" using nn assms(2) unfolding z_def[symmetric] by simp
  have "\<bar>rd z - z\<bar> \<le> 1 / 2 ^ 13" using zb by (rule rd_close)
  moreover have "(1 / 2 ^ 12 :: real) = 1 / 2 ^ 13 + 1 / 2 ^ 13" by simp
  ultimately have hi: "y \<le> z + 1 / 2 ^ 12" using assms(4) unfolding z_def[symmetric] by linarith
  have z31: "z \<le> 2 ^ 31" using assms(2) unfolding z_def[symmetric] .
  have small: "\<bar>y\<bar> < 10 ^ 21" using hi z31 assms(3) by simp
  have "(1 / 2 ^ 12 :: real) < 1 / 200" by simp
  with hi have "y * 100 + 1 / 2 < 100 * z + 1" by linarith
  then have "\<bar>y\<bar> * 10 ^ 2 + 1 / 2 < of_int (k + 1)" using assms(3) kz by simp
  then have "\<lfloor>\<bar>y\<bar> * 10 ^ 2 + 1 / 2\<rfloor> < k + 1" by (simp only: floor_less_iff)
  then have "\<lfloor>\<bar>y\<bar> * 10 ^ 2 + 1 / 2\<rfloor> \<le> k" by simp
  then have "(of_int \<lfloor>\<bar>y\<bar> * 10 ^ 2 + 1 / 2\<rfloor> :: real) \<le> of_int k" by (simp only: of_int_le_iff)
  then have "of_int \<lfloor>\<bar>y\<bar> * 10 ^ 2 + 1 / 2\<rfloor> / 100 \<le> (of_int k / 100 :: real)"
    by (rule divide_right_mono) simp
  then have "of_int \<lfloor>\<bar>y\<bar> * 10 ^ 2 + 1 / 2\<rfloor> / 10 ^ 2 \<le> z" by (simp add: z_def)
  moreover have "0 \<le> (of_int \<lfloor>\<bar>y\<bar> * 10 ^ 2 + 1 / 2\<rfloor> / 10 ^ 2 :: real)" by simp
  ultimately have "rd (of_int \<lfloor>\<bar>y\<bar> * 10 ^ 2 + 1 / 2\<rfloor> / 10 ^ 2) \<le> rd z"
    by (intro rd_mono)
  moreover have "sgn y * of_int \<lfloor>\<bar>y\<bar> * 10 ^ 2 + 1 / 2\<rfloor> / 10 ^ 2 =
      (of_int \<lfloor>\<bar>y\<bar> * 10 ^ 2 + 1 / 2\<rfloor> / 10 ^ 2 :: real)"
  proof (cases "y = 0")
    case True
    then show ?thesis by simp
  next
    case False
    with assms(3) show ?thesis by (simp add: sgn_if)
  qed
  ultimately show ?thesis using small unfolding z_def by (simp only: toFixed_def) simp
qed

lemma rd_max: "0 \<le> a \<Longrightarrow> 0 \<le> b \<Longrightarrow> max (rd a) (rd b) = rd (max a b)"
  by (smt (verit) rd_mono max_def)

lemma rd_min: "0 \<le> a \<Longrightarrow> 0 \<le> b \<Longrightarrow> min (rd a) (rd b) = rd (min a b)"
  by (smt (verit) rd_mono min_def)

lemma fallback_quote_invariant:
  assumes u: "unit_interval rnd"
  shows "max (q_open (generateFallbackQuote rnd now originalSymbol mappedSymbol))
             (q_last (generateFallbackQuote rnd now originalSymbol mappedSymbol))
           \<le> q_high (generateFallbackQuote rnd now originalSymbol mappedSymbol) \<and>
         q_low (generateFallbackQuote rnd now originalSymbol mappedSymbol)
           \<le> min (q_open (generateFallbackQuote rnd now originalSymbol mappedSymbol))
                 (q_last (generateFallbackQuote rnd now originalSymbol mappedSymbol))"
proof -
  define q where "q = generateFallbackQuote rnd now originalSymbol mappedSymbol"
  define base where "base = base_price originalSymbol mappedSymbol"
  define x0 where "x0 = fmul base (fadd (rd (99 / 100)) (fmul (rnd 0) (rd (2 / 100))))"
  define lst where "lst = toFixed 2 x0"
  define x2 where "x2 = fmul lst (fadd (rd (995 / 1000)) (fmul (rnd 2) (rd (1 / 100))))"
  define opn where "opn = toFixed 2 x2"
  define up where "up = fadd 1 (fmul (rnd 3) (rd (1 / 100)))"
  define down where "down = fsub 1 (fmul (rnd 4) (rd (1 / 100)))"
  have r: "0 \<le> rnd i" "rnd i < 1" for i using u by (simp_all add: unit_interval_def)
  have b: "0 \<le> base" "base \<le> 415" using base_price_bounds[of originalSymbol mappedSymbol]
    by (simp_all add: base_def)
  have f0: "0 \<le> fadd (rd (99 / 100)) (fmul (rnd 0) (rd (2 / 100)))"
    "fadd (rd (99 / 100)) (fmul (rnd 0) (rd (2 / 100))) \<le> 2"
    by (rule factor_bounds[OF r]; simp)+
  have f2: "0 \<le> fadd (rd (995 / 1000)) (fmul (rnd 2) (rd (1 / 100)))"
    "fadd (rd (995 / 1000)) (fmul (rnd 2) (rd (1 / 100))) \<le> 2"
    by (rule factor_bounds[OF r]; simp)+
  have up: "1 \<le> up" "up \<le> 2" unfolding up_def by (rule up_factor[OF r]; simp)+
  have down: "0 \<le> down" "down \<le> 1" unfolding down_def by (rule down_factor[OF r]; simp)+
  have x0: "0 \<le> x0" "x0 \<le> 4 * 415 + 1"
    unfolding x0_def by (rule price_product[OF b f0])+
  have bb: "(4 * 415 + 1 :: real) \<le> 2 ^ 30" by simp
  from toFixed2_price[OF x0 bb] obtain kl :: int where kl: "0 \<le> kl" "lst = rd (of_int kl / 100)"
    "(of_int kl / 100 :: real) \<le> 2 ^ 31" "0 \<le> lst" "lst \<le> 2 * (4 * 415 + 1) + 2"
    unfolding lst_def by blast
  have x2: "0 \<le> x2" "x2 \<le> 4 * (2 * (4 * 415 + 1) + 2) + 1"
    unfolding x2_def by (rule price_product[OF kl(4,5) f2])+
  have bb2: "(4 * (2 * (4 * 415 + 1) + 2) + 1 :: real) \<le> 2 ^ 30" by simp
  from toFixed2_price[OF x2 bb2] obtain ko :: int where ko: "0 \<le> ko" "opn = rd (of_int ko / 100)"
    "(of_int ko / 100 :: real) \<le> 2 ^ 31" "0 \<le> opn"
    "opn \<le> 2 * (4 * (2 * (4 * 415 + 1) + 2) + 1) + 2"
    unfolding opn_def by blast
  define K where "K = max ko kl"
  define L where "L = min ko kl"
  have K: "0 \<le> K" "(of_int K / 100 :: real) \<le> 2 ^ 31" "max opn lst = rd (of_int K / 100)"
  proof -
    show "0 \<le> K" using ko(1) kl(1) by (simp add: K_def)
    show "(of_int K / 100 :: real) \<le> 2 ^ 31" using ko(3) kl(3) by (simp add: K_def max_def)
    have "max (rd (of_int ko / 100)) (rd (of_int kl / 100)) = rd (max (of_int ko / 100) (of_int kl / 100))"
      using ko(1) kl(1) by (intro rd_max) simp_all
    also have "max (of_int ko / 100) (of_int kl / 100) = (of_int K / 100 :: real)"
      by (simp add: K_def max_def)
    finally show "max opn lst = rd (of_int K / 100)" by (simp only: ko(2) kl(2))
  qed
  have L: "0 \<le> L" "(of_int L / 100 :: real) \<le> 2 ^ 31" "min opn lst = rd (of_int L / 100)"
  proof -
    show "0 \<le> L" using ko(1) kl(1) by (simp add: L_def)
    show "(of_int L / 100 :: real) \<le> 2 ^ 31" using ko(3) kl(3) by (simp add: L_def min_def)
    have "min (rd (of_int ko / 100)) (rd (of_int kl / 100)) = rd (min (of_int ko / 100) (of_int kl / 100))"
      using ko(1) kl(1) by (intro rd_min) simp_all
    also have "min (of_int ko / 100) (of_int kl / 100) = (of_int L / 100 :: real)"
      by (simp add: L_def min_def)
    finally show "min opn lst = rd (of_int L / 100)" by (simp only: ko(2) kl(2))
  qed
  have m0: "0 \<le> max opn lst" "max opn lst \<le> 2 ^ 20" "0 \<le> min opn lst"
    using ko(4,5) kl(4,5) by (simp_all add: max_def min_def)
  have hi: "max opn lst \<le> toFixed 2 (fmul (max opn lst) up)"
  proof -
    have "max opn lst * 1 \<le> max opn lst * up" using m0 up by (intro mult_left_mono) simp_all
    then have "rd (max opn lst) \<le> fmul (max opn lst) up"
      unfolding fmul_def using m0 by (intro rd_mono) simp_all
    moreover have "\<bar>rd (max opn lst) - max opn lst\<bar> \<le> 1 / 2 ^ 13"
      using m0 by (intro rd_close) simp
    ultimately have lo: "max opn lst - 1 / 2 ^ 13 \<le> fmul (max opn lst) up" by linarith
    have "fmul (max opn lst) up \<le> 4 * 2 ^ 20 + 1"
      by (rule price_product(2)[OF m0(1,2) _ up(2)]) (use up in simp)
    then have ub: "fmul (max opn lst) up \<le> 2 ^ 40" by simp
    show ?thesis
      using toFixed2_ge[OF K(1,2) _ ub] lo unfolding K(3) by simp
  qed
  have low: "toFixed 2 (fmul (min opn lst) down) \<le> min opn lst"
  proof -
    have nn: "0 \<le> fmul (min opn lst) down"
      unfolding fmul_def using m0 down by (intro rd_nonneg) simp
    have "min opn lst * down \<le> min opn lst * 1" using m0 down by (intro mult_left_mono) simp_all
    moreover have "0 \<le> min opn lst * down" using m0 down by simp
    ultimately have "fmul (min opn lst) down \<le> rd (min opn lst)"
      unfolding fmul_def by (intro rd_mono) simp_all
    moreover have "min opn lst \<le> 2 ^ 20" using m0 by linarith
    then have "\<bar>rd (min opn lst) - min opn lst\<bar> \<le> 1 / 2 ^ 13"
      using m0 by (intro rd_close) simp
    ultimately have hi: "fmul (min opn lst) down \<le> min opn lst + 1 / 2 ^ 13" by linarith
    show ?thesis
      using toFixed2_le[OF L(1,2) nn] hi unfolding L(3) by simp
  qed
  have "q_open q = opn" "q_last q = lst"
    "q_high q = toFixed 2 (fmul (max opn lst) up)"
    "q_low q = toFixed 2 (fmul (min opn lst) down)"
    by (simp_all add: q_def generateFallbackQuote_def Let_def opn_def x2_def lst_def x0_def base_def
        up_def down_def)
  with hi low show ?thesis unfolding q_def[symmetric] by simp
qed

lemma built_quote_fields:
  "ToNumber coerce (get_prop quote ''high'') = None \<Longrightarrow>
   q_high (buildQuoteFromTiingo coerce now quote mappedSymbol originalSymbol) =
     max (q_open (buildQuoteFromTiingo coerce now quote mappedSymbol originalSymbol))
         (q_last (buildQuoteFromTiingo coerce now quote mappedSymbol originalSymbol))"
  "ToNumber coerce (get_prop quote ''low'') = None \<Longrightarrow>
   q_low (buildQuoteFromTiingo coerce now quote mappedSymbol originalSymbol) =
     min (q_open (buildQuoteFromTiingo coerce now quote mappedSymbol originalSymbol))
         (q_last (buildQuoteFromTiingo coerce now quote mappedSymbol originalSymbol))"
  "get_prop quote ''high'' = JNum h \<Longrightarrow>
   q_high (buildQuoteFromTiingo coerce now quote mappedSymbol originalSymbol) = rd h"
  "get_prop quote ''low'' = JNum l \<Longrightarrow>
   q_low (buildQuoteFromTiingo coerce now quote mappedSymbol originalSymbol) = rd l"
  by (simp_all add: buildQuoteFromTiingo_def Let_def ensureNumber_def)

text \<open>
  C6 (amended). A quote synthesised by the fallback generator has
  \<open>high \<ge> max(open, last)\<close> and \<open>low \<le> min(open, last)\<close>. In a quote derived from a
  provider object the high is \<open>max(open, last)\<close> when \<open>Number(quote.high)\<close> is \<open>NaN\<close>,
  that is when the member is absent, \<open>undefined\<close> or a value that does not convert to a
  number, and the low is \<open>min(open, last)\<close> likewise; the invariant holds when both are.
  A high or a low that the provider gives as a number is taken as it is, whatever the
  other prices of the quote are.
\<close>

theorem C6_quote_invariant:
  "(unit_interval rnd \<longrightarrow>
      (let q = generateFallbackQuote rnd now originalSymbol mappedSymbol
       in max (q_open q) (q_last q) \<le> q_high q \<and> q_low q \<le> min (q_open q) (q_last q))) \<and>
   (let q = buildQuoteFromTiingo coerce now quote mappedSymbol originalSymbol
    in (ToNumber coerce (get_prop quote ''high'') = None \<longrightarrow>
          q_high q = max (q_open q) (q_last q)) \<and>
       (ToNumber coerce (get_prop quote ''low'') = None \<longrightarrow>
          q_low q = min (q_open q) (q_last q)) \<and>
       (ToNumber coerce (get_prop quote ''high'') = None \<and>
        ToNumber coerce (get_prop quote ''low'') = None \<longrightarrow>
          max (q_open q) (q_last q) \<le> q_high q \<and> q_low q \<le> min (q_open q) (q_last q)) \<and>
       (\<forall>h. get_prop quote ''high'' = JNum h \<and> \<bar>h\<bar> < of_int double_overflow \<longrightarrow> q_high q = rd h) \<and>
       (\<forall>l. get_prop quote ''low'' = JNum l \<and> \<bar>l\<bar> < of_int double_overflow \<longrightarrow> q_low q = rd l))"
  unfolding Let_def
proof (intro conjI impI allI; (elim conjE)?)
  assume "unit_interval rnd"
  from fallback_quote_invariant[OF this]
  show "max (q_open (generateFallbackQuote rnd now originalSymbol mappedSymbol))
         (q_last (generateFallbackQuote rnd now originalSymbol mappedSymbol))
        \<le> q_high (generateFallbackQuote rnd now originalSymbol mappedSymbol)"
    and "q_low (generateFallbackQuote rnd now originalSymbol mappedSymbol)
        \<le> min (q_open (generateFallbackQuote rnd now originalSymbol mappedSymbol))
            (q_last (generateFallbackQuote rnd now originalSymbol mappedSymbol))"
    by blast+
qed (simp_all add: built_quote_fields)

lemma rd_small_ints: "rd 5 = 5" "rd 10 = 10" "rd 20 = 20"
  by code_simp+

lemma bare_quote_fields:
  "ToNumber (\<lambda>_. None) (get_prop bare_quote ''high'') = None"
  "ToNumber (\<lambda>_. None) (get_prop bare_quote ''low'') = None"
  "q_open (buildQuoteFromTiingo (\<lambda>_. None) 0 bare_quote ''AAPL'' ''aapl'') = 10"
  "q_last (buildQuoteFromTiingo (\<lambda>_. None) 0 bare_quote ''AAPL'' ''aapl'') = 10"
  by (simp_all add: buildQuoteFromTiingo_def Let_def ensureNumber_def coalesce_def bare_quote_def
      rd_small_ints)

text \<open>
  A random source that always returns one half, a provider quote that only carries its
  last price, and one that gives its high as a number.
\<close>

theorem C6_witness:
  "unit_interval (\<lambda>_. 1 / 2) \<and>
   max (q_open (generateFallbackQuote (\<lambda>_. 1 / 2) 0 ''aapl'' ''AAPL''))
       (q_last (generateFallbackQuote (\<lambda>_. 1 / 2) 0 ''aapl'' ''AAPL''))
     \<le> q_high (generateFallbackQuote (\<lambda>_. 1 / 2) 0 ''aapl'' ''AAPL'') \<and>
   q_low (generateFallbackQuote (\<lambda>_. 1 / 2) 0 ''aapl'' ''AAPL'')
     \<le> min (q_open (generateFallbackQuote (\<lambda>_. 1 / 2) 0 ''aapl'' ''AAPL''))
           (q_last (generateFallbackQuote (\<lambda>_. 1 / 2) 0 ''aapl'' ''AAPL'')) \<and>
   ToNumber (\<lambda>_. None) (get_prop bare_quote ''high'') = None \<and>
   ToNumber (\<lambda>_. None) (get_prop bare_quote ''low'') = None \<and>
   q_high (buildQuoteFromTiingo (\<lambda>_. None) 0 bare_quote ''AAPL'' ''aapl'') = 10 \<and>
   q_low (buildQuoteFromTiingo (\<lambda>_. None) 0 bare_quote ''AAPL'' ''aapl'') = 10 \<and>
   get_prop crossed_quote ''high'' = JNum 5 \<and>
   q_high (buildQuoteFromTiingo (\<lambda>_. None) 0 crossed_quote ''AAPL'' ''aapl'') = 5"
proof -
  have u: "unit_interval (\<lambda>_. 1 / 2)" by (simp add: unit_interval_def)
  have c: "get_prop crossed_quote ''high'' = JNum 5" "\<bar>5 :: real\<bar> < of_int double_overflow"
    by (simp_all add: crossed_quote_def double_overflow_def)
  note t = C6_quote_invariant[where rnd = "\<lambda>_. 1 / 2" and now = 0 and originalSymbol = "''aapl''"
      and mappedSymbol = "''AAPL''", unfolded Let_def]
  note g = t[THEN conjunct1, rule_format, OF u]
  note b = t[where coerce = "\<lambda>_. None" and quote = bare_quote, THEN conjunct2]
  note x = t[where coerce = "\<lambda>_. None" and quote = crossed_quote, THEN conjunct2]
  have hi: "q_high (buildQuoteFromTiingo (\<lambda>_. None) 0 bare_quote ''AAPL'' ''aapl'') = 10"
    using b[THEN conjunct1, rule_format, OF bare_quote_fields(1)] by (simp add: bare_quote_fields)
  have lo: "q_low (buildQuoteFromTiingo (\<lambda>_. None) 0 bare_quote ''AAPL'' ''aapl'') = 10"
    using b[THEN conjunct2, THEN conjunct1, rule_format, OF bare_quote_fields(2)]
    by (simp add: bare_quote_fields)
  have cr: "q_high (buildQuoteFromTiingo (\<lambda>_. None) 0 crossed_quote ''AAPL'' ''aapl'') = 5"
    using x[THEN conjunct2, THEN conjunct2, THEN conjunct2, THEN conjunct1, rule_format, of 5] c
    by (simp add: rd_small_ints)
  from u g bare_quote_fields(1,2) hi lo c(1) cr show ?thesis by blast
qed

text \<open>
  C6, as stated, fails for a derived quote: the provider's \<open>high = 5\<close> and
  \<open>low = 20\<close> are passed through next to \<open>open = last = 10\<close>.
\<close>

theorem C6_counterexample:
  "q_last (buildQuoteFromTiingo (\<lambda>_. None) 0 crossed_quote ''AAPL'' ''AAPL'') = 10 \<and>
   q_open (buildQuoteFromTiingo (\<lambda>_. None) 0 crossed_quote ''AAPL'' ''AAPL'') = 10 \<and>
   q_high (buildQuoteFromTiingo (\<lambda>_. None) 0 crossed_quote ''AAPL'' ''AAPL'') = 5 \<and>
   q_low (buildQuoteFromTiingo (\<lambda>_. None) 0 crossed_quote ''AAPL'' ''AAPL'') = 20 \<and>
   \<not> (max (q_open (buildQuoteFromTiingo (\<lambda>_. None) 0 crossed_quote ''AAPL'' ''AAPL''))
           (q_last (buildQuoteFromTiingo (\<lambda>_. None) 0 crossed_quote ''AAPL'' ''AAPL''))
         \<le> q_high (buildQuoteFromTiingo (\<lambda>_. None) 0 crossed_quote ''AAPL'' ''AAPL''))"
  by (simp add: buildQuoteFromTiingo_def Let_def ensureNumber_def coalesce_def crossed_quote_def
      rd_small_ints)

subsection \<open>C2: credential resolution\<close>

lemma chunk_at_shape:
  assumes "chunk_at s = Some m"
  shows "list_all is_token_char m \<and> 24 \<le> length m"
proof (cases s)
  case Nil
  with assms show ?thesis by simp
next
  case (Cons c cs)
  define run where "run = rev (dropWhile (\<lambda>d. \<not> is_alnum d) (rev (takeWhile is_token_char cs)))"
  from assms Cons have c: "is_alnum c" and len: "23 \<le> length run" and m: "m = c # run"
    by (auto simp: run_def Let_def split: if_splits)
  have "set run \<subseteq> set (takeWhile is_token_char cs)"
    unfolding run_def using set_dropWhileD by fastforce
  then have "\<forall>d \<in> set run. is_token_char d"
    using set_takeWhileD by fastforce
  with c len m show ?thesis by (simp add: list_all_iff is_token_char_def)
qed

lemma chunk_match_shape:
  "chunk_match s = Some m \<Longrightarrow> list_all is_token_char m \<and> 24 \<le> length m"
proof (induction s)
  case Nil
  then show ?case by simp
next
  case (Cons c cs)
  show ?case
  proof (cases "chunk_at (c # cs)")
    case None
    with Cons show ?thesis by simp
  next
    case (Some m')
    with Cons.prems have "m' = m" by simp
    with Some chunk_at_shape show ?thesis by blast
  qed
qed

lemma extractTokenCandidate_shape:
  assumes "extractTokenCandidate v \<noteq> []"
  shows "list_all is_token_char (extractTokenCandidate v) \<and> 24 \<le> length (extractTokenCandidate v) \<and>
         (length (extractTokenCandidate v) \<le> 128 \<or> chunk_match (trim v) = Some (extractTokenCandidate v))"
proof -
  define t where "t = trim v"
  let ?P = "\<lambda>part. part \<noteq> [] \<and> 24 \<le> length part \<and> length part \<le> 128 \<and> list_all is_token_char part"
  show ?thesis
  proof (cases "24 \<le> length t \<and> length t \<le> 128 \<and> list_all is_token_char t")
    case True
    with assms show ?thesis
      by (auto simp: extractTokenCandidate_def Let_def t_def split: if_splits)
  next
    case whole: False
    show ?thesis
    proof (cases "find ?P (split_runs t)")
      case (Some part)
      then have "?P part" by (auto simp: find_Some_iff)
      moreover from assms whole Some have "extractTokenCandidate v = part"
        by (auto simp: extractTokenCandidate_def Let_def t_def split: if_splits)
      ultimately show ?thesis by simp
    next
      case None
      with assms whole have e: "chunk_match t = Some (extractTokenCandidate v)"
        by (auto simp: extractTokenCandidate_def Let_def t_def split: if_splits option.splits)
      from chunk_match_shape[OF this] e show ?thesis by (simp add: t_def)
    qed
  qed
qed

lemma disallowedLiterals_short: "disallowedLiterals s \<Longrightarrow> length s \<le> 9"
proof -
  assume "disallowedLiterals s"
  then have "length (toLowerCase s) \<le> 9" by (auto simp: disallowedLiterals_def)
  then show ?thesis by (simp add: toLowerCase_def)
qed

lemma first_detail_find:
  "first_detail (\<lambda>x. buildDetail (K x) (V x) src) xs =
     map_option (\<lambda>x. \<lparr> d_key = K x, d_token = extractTokenCandidate (V x), d_source = src \<rparr>)
       (find (\<lambda>x. extractTokenCandidate (V x) \<noteq> []) xs)"
  by (induction xs) (simp_all add: buildDetail_def Let_def)

lemma find_map_triple:
  "find (\<lambda>c. extractTokenCandidate (fst (snd c)) \<noteq> []) (map (\<lambda>x. (K x, V x, src)) xs) =
     map_option (\<lambda>x. (K x, V x, src)) (find (\<lambda>x. extractTokenCandidate (V x) \<noteq> []) xs)"
  by (induction xs) simp_all

lemma find_append_option:
  "find P (xs @ ys) = (case find P xs of Some x \<Rightarrow> Some x | None \<Rightarrow> find P ys)"
  by (induction xs) simp_all

lemma stages_refine: "getTiingoTokenDetail env = resolve_in_stages env"
proof -
  let ?E = "\<lambda>x. extractTokenCandidate x \<noteq> []"
  have a: "first_detail (\<lambda>key. buildDetail key (readEnvValue env key) ''env:preferred'') ks =
      map_option (\<lambda>x. \<lparr> d_key = x, d_token = extractTokenCandidate (readEnvValue env x), d_source = ''env:preferred'' \<rparr>)
       (find (\<lambda>x. extractTokenCandidate (readEnvValue env x) \<noteq> []) ks)" for ks
    using first_detail_find[of "\<lambda>x. x" "readEnvValue env" "''env:preferred''" ks] by simp
  have b: "first_detail (\<lambda>key. let lower = toLowerCase key
                               in buildDetail lower (readEnvValue env lower) ''env:lowercase'') ks =
      map_option (\<lambda>x. \<lparr> d_key = toLowerCase x, d_token = extractTokenCandidate (readEnvValue env (toLowerCase x)), d_source = ''env:lowercase'' \<rparr>)
       (find (\<lambda>x. extractTokenCandidate (readEnvValue env (toLowerCase x)) \<noteq> []) ks)" for ks
    using first_detail_find[of toLowerCase "\<lambda>x. readEnvValue env (toLowerCase x)" "''env:lowercase''" ks]
    by (simp add: Let_def)
  have c: "first_detail (\<lambda>kv. buildDetail (fst kv) (snd kv) ''env:scan'') env =
      map_option (\<lambda>x. \<lparr> d_key = fst x, d_token = extractTokenCandidate (snd x), d_source = ''env:scan'' \<rparr>)
       (find (\<lambda>x. extractTokenCandidate (snd x) \<noteq> []) env)"
    by (rule first_detail_find)
  have d: "first_detail (\<lambda>kv. buildDetail (fst kv) (fst kv) ''env:name-as-token'') env =
      map_option (\<lambda>x. \<lparr> d_key = fst x, d_token = extractTokenCandidate (fst x), d_source = ''env:name-as-token'' \<rparr>)
       (find (\<lambda>x. extractTokenCandidate (fst x) \<noteq> []) env)"
    by (rule first_detail_find)
  show ?thesis
    unfolding getTiingoTokenDetail_def resolve_in_stages_def stage_candidates_def
      a b c d find_append_option
      find_map_triple[of "\<lambda>x. x" "readEnvValue env" "''env:preferred''"]
      find_map_triple[of toLowerCase "\<lambda>x. readEnvValue env (toLowerCase x)" "''env:lowercase''"]
      find_map_triple[of fst snd "''env:scan''"]
      find_map_triple[of fst fst "''env:name-as-token''"]
    by (simp split: option.splits)
qed

text \<open>
  C2 (amended). Credential resolution searches four stages in order: the canonical names,
  the same names lower-cased, every variable's value, every variable's name. It returns
  the first candidate that holds a token and the empty credential when none does; being a
  total function, it never throws. A token consists of alphanumeric characters, \<open>-\<close>
  and \<open>_\<close> only, is at least 24 long and is no rejected literal. It is at most 128
  long when it is the whole trimmed value or one of its separator-delimited parts; the
  trailing chunk pattern has no upper bound.
\<close>

theorem C2_credential_resolution:
  "getTiingoTokenDetail env = resolve_in_stages env \<and>
   (d_token (getTiingoTokenDetail env) \<noteq> [] \<longrightarrow>
      list_all is_token_char (d_token (getTiingoTokenDetail env)) \<and>
      24 \<le> length (d_token (getTiingoTokenDetail env)) \<and>
      \<not> disallowedLiterals (d_token (getTiingoTokenDetail env))) \<and>
   (extractTokenCandidate v \<noteq> [] \<longrightarrow>
      list_all is_token_char (extractTokenCandidate v) \<and>
      24 \<le> length (extractTokenCandidate v) \<and>
      (length (extractTokenCandidate v) \<le> 128 \<or>
       chunk_match (trim v) = Some (extractTokenCandidate v))) \<and>
   (find (\<lambda>c. extractTokenCandidate (fst (snd c)) \<noteq> []) (stage_candidates env) = None \<longrightarrow>
      getTiingoTokenDetail env = \<lparr> d_key = [], d_token = [], d_source = [] \<rparr>)"
proof (intro conjI impI)
  show "getTiingoTokenDetail env = resolve_in_stages env" by (rule stages_refine)
next
  assume ne: "d_token (getTiingoTokenDetail env) \<noteq> []"
  then obtain c where t: "d_token (getTiingoTokenDetail env) = extractTokenCandidate (fst (snd c))"
    by (auto simp: stages_refine resolve_in_stages_def split: option.splits)
  with ne have s: "list_all is_token_char (d_token (getTiingoTokenDetail env)) \<and>
      24 \<le> length (d_token (getTiingoTokenDetail env))"
    using extractTokenCandidate_shape[of "fst (snd c)"] by simp
  then show "list_all is_token_char (d_token (getTiingoTokenDetail env))"
    and "24 \<le> length (d_token (getTiingoTokenDetail env))" by simp_all
  from s show "\<not> disallowedLiterals (d_token (getTiingoTokenDetail env))"
    using disallowedLiterals_short[of "d_token (getTiingoTokenDetail env)"] by auto
next
  assume ne: "extractTokenCandidate v \<noteq> []"
  from extractTokenCandidate_shape[OF this]
  show "list_all is_token_char (extractTokenCandidate v)"
    and "24 \<le> length (extractTokenCandidate v)"
    and "length (extractTokenCandidate v) \<le> 128 \<or>
       chunk_match (trim v) = Some (extractTokenCandidate v)"
    by simp_all
next
  assume "find (\<lambda>c. extractTokenCandidate (fst (snd c)) \<noteq> []) (stage_candidates env) = None"
  then show "getTiingoTokenDetail env = \<lparr> d_key = [], d_token = [], d_source = [] \<rparr>"
    by (simp add: stages_refine resolve_in_stages_def)
qed

lemma bearer_env_detail:
  "getTiingoTokenDetail bearer_env =
     \<lparr> d_key = ''FOO'', d_token = ''abcdefghijklmnopqrstuvwxyz0123'', d_source = ''env:scan'' \<rparr>"
  by code_simp

text \<open>A token found by the scan of values, inside other text.\<close>

theorem C2_witness:
  "d_token (getTiingoTokenDetail bearer_env) \<noteq> [] \<and>
   extractTokenCandidate ''Bearer abcdefghijklmnopqrstuvwxyz0123 x'' \<noteq> [] \<and>
   getTiingoTokenDetail bearer_env = resolve_in_stages bearer_env \<and>
   list_all is_token_char (d_token (getTiingoTokenDetail bearer_env)) \<and>
   24 \<le> length (d_token (getTiingoTokenDetail bearer_env)) \<and>
   list_all is_token_char (extractTokenCandidate ''Bearer abcdefghijklmnopqrstuvwxyz0123 x'')"
proof -
  have h1: "d_token (getTiingoTokenDetail bearer_env) \<noteq> []"
    by (simp add: bearer_env_detail)
  have h2: "extractTokenCandidate ''Bearer abcdefghijklmnopqrstuvwxyz0123 x'' \<noteq> []"
    by code_simp
  from C2_credential_resolution[of bearer_env "''Bearer abcdefghijklmnopqrstuvwxyz0123 x''"] h1 h2
  show ?thesis by blast
qed

text \<open>
  C2, as stated, fails on the length bound: a value of 129 letters is returned whole by
  the chunk pattern.
\<close>

theorem C2_counterexample:
  "d_token (getTiingoTokenDetail long_env) = replicate 129 (CHR ''a'') \<and>
   d_source (getTiingoTokenDetail long_env) = ''env:preferred'' \<and>
   \<not> length (d_token (getTiingoTokenDetail long_env)) \<le> 128"
  by code_simp

subsection \<open>C8: the response cache\<close>








lemma build_url_cache [simp]: "build_url (c\<lparr> c_cache := m \<rparr>) ep ps = build_url c ep ps"
  by (simp add: build_url_def)

lemma attempt_loop_no_attempt:
  "\<not> attempt \<le> retries \<Longrightarrow>
   attempt_loop net c w u key caching ttl retries attempt le = (Inl le, c, w)"
  by (simp add: attempt_loop.simps[of net c w])








subsection \<open>C9: retries and client errors\<close>

text \<open>
  C9 at a failing input: the first attempt is answered with status 500 and a body that
  mentions 404. The loop takes the message for a client error: it stops after one fetch,
  without sleeping, although three retries are configured and 500 is no client error.
\<close>

theorem C9_client_error_substring:
  "makeRequest net_500_mentions_404 demo_client demo_world ''/iex'' [] default_options \<noteq> None \<and>
   fst (the (makeRequest net_500_mentions_404 demo_client demo_world ''/iex'' [] default_options)) =
     Inl (Error ''Tiingo API error 500: upstream 404'') \<and>
   length (w_fetched (snd (snd (the (makeRequest net_500_mentions_404 demo_client demo_world ''/iex'' []
     default_options))))) = 1 \<and>
   w_slept (snd (snd (the (makeRequest net_500_mentions_404 demo_client demo_world ''/iex'' []
     default_options)))) = [] \<and>
   c_maxRetries demo_client = 3"
  by code_simp

subsection \<open>The synthetic series\<close>

lemma intraday_rounds_length:
  assumes "\<forall>j. 0 \<le> j \<and> j \<le> i \<longrightarrow> valid_time (now - j * m * 60 * 1000)"
  shows "\<exists>bars. intraday_rounds rnd now limit m i price results = Inr bars \<and>
           length bars = length results + nat (i + 1)"
  using assms
proof (induction rnd now limit m i price results rule: intraday_rounds.induct)
  case (1 rnd now limit m i price results)
  show ?case
  proof (cases "0 \<le> i")
    case False
    then show ?thesis by (simp add: intraday_rounds.simps)
  next
    case True
    with "1.prems" have v: "valid_time (now - i * m * 60 * 1000)" by simp
    from "1.prems" have "\<forall>j. 0 \<le> j \<and> j \<le> i - 1 \<longrightarrow> valid_time (now - j * m * 60 * 1000)"
      by simp
    from "1.IH"[OF True _ this] v
    obtain bars where "intraday_rounds rnd now limit m (i - 1)
        (fst (intraday_round rnd now limit m i price))
        (results @ [snd (intraday_round rnd now limit m i price)]) = Inr bars"
      "length bars = length (results @ [snd (intraday_round rnd now limit m i price)]) + nat (i - 1 + 1)"
      by auto
    with True v show ?thesis
      by (subst intraday_rounds.simps) (simp add: nat_add_distrib)
  qed
qed

lemma daily_rounds_length:
  assumes "\<forall>j. 0 \<le> j \<and> j \<le> i \<longrightarrow> valid_time (now - j * 24 * 60 * 60 * 1000)"
  shows "\<exists>bars. daily_rounds rnd now limit i price results = Inr bars \<and>
           length bars = length results + nat (i + 1)"
  using assms
proof (induction rnd now limit i price results rule: daily_rounds.induct)
  case (1 rnd now limit i price results)
  show ?case
  proof (cases "0 \<le> i")
    case False
    then show ?thesis by (simp add: daily_rounds.simps)
  next
    case True
    with "1.prems" have v: "valid_time (now - i * 24 * 60 * 60 * 1000)" by simp
    from "1.prems" have "\<forall>j. 0 \<le> j \<and> j \<le> i - 1 \<longrightarrow> valid_time (now - j * 24 * 60 * 60 * 1000)"
      by simp
    from "1.IH"[OF True _ this] v
    obtain bars where "daily_rounds rnd now limit (i - 1)
        (fst (daily_round rnd now limit i price))
        (results @ [snd (daily_round rnd now limit i price)]) = Inr bars"
      "length bars = length (results @ [snd (daily_round rnd now limit i price)]) + nat (i - 1 + 1)"
      by auto
    with True v show ?thesis
      by (subst daily_rounds.simps) (simp add: nat_add_distrib)
  qed
qed

subsection \<open>The request handler\<close>

lemma handler_options:
  "httpMethod ev = ''OPTIONS'' \<Longrightarrow>
   handler h ev = Inr (\<lparr> statusCode = 200, headers = baseHeaders, body = EmptyBody \<rparr>, [])"
  by (simp add: handler_def)

lemma handler_missing_symbol:
  "httpMethod ev \<noteq> ''OPTIONS'' \<Longrightarrow> request_symbol ev = [] \<Longrightarrow>
   handler h ev = Inr (\<lparr> statusCode = 400, headers = baseHeaders,
                         body = ErrorBody ''Missing symbol parameter'' \<rparr>, [])"
  by (simp add: handler_def request_symbol_def Let_def)

lemma handler_switch:
  "httpMethod ev \<noteq> ''OPTIONS'' \<Longrightarrow> request_symbol ev \<noteq> [] \<Longrightarrow>
   handler h ev =
     (case switch_kind h ev (request_kind ev) (request_symbol ev) (mapSymbolForAPI (request_symbol ev))
             (initial_meta h (request_kind ev) (mapSymbolForAPI (request_symbol ev))) of
        Inl e \<Rightarrow> Inl e
      | Inr out \<Rightarrow> Inr (respond (request_symbol ev) (mapSymbolForAPI (request_symbol ev)) out))"
  by (simp add: handler_def request_symbol_def request_kind_def Let_def split: sum.split)

lemma parseIntervalMinutes_pos: "0 < parseIntervalMinutes s"
  by (simp add: parseIntervalMinutes_def Let_def)

lemma clamp_limit_le: "clamp_limit p d hard \<le> hard"
  by (simp add: clamp_limit_def)

lemma valid_between:
  assumes "valid_time a" "valid_time b" "a \<le> t" "t \<le> b"
  shows "valid_time t"
  using assms by (simp add: valid_time_def abs_le_iff)

lemma generateFallbackDailySeries_length:
  assumes clock: "0 \<le> now" "now \<le> 8640000000000000" and lim: "limit \<le> 365"
  shows "\<exists>bars. generateFallbackDailySeries rnd now s m limit = Inr bars \<and>
           length bars = nat limit"
proof -
  have "valid_time (now - j * 24 * 60 * 60 * 1000)" if "0 \<le> j" "j \<le> limit - 1" for j
  proof -
    have "j \<le> 364" using that lim by simp
    with that clock show ?thesis by (simp add: valid_time_def abs_le_iff)
  qed
  then have "\<forall>j. 0 \<le> j \<and> j \<le> limit - 1 \<longrightarrow> valid_time (now - j * 24 * 60 * 60 * 1000)" by blast
  from daily_rounds_length[OF this, of rnd limit "base_price s m" "[]"]
  show ?thesis by (simp add: generateFallbackDailySeries_def)
qed

lemma generateFallbackIntradaySeries_length:
  assumes clock: "0 \<le> now" "now \<le> 8640000000000000" and iv: "0 < iv"
    and oldest: "limit \<le> 0 \<or> valid_time (now - (limit - 1) * iv * 60 * 1000)"
  shows "\<exists>bars. generateFallbackIntradaySeries rnd now s m limit iv = Inr bars \<and>
           length bars = nat limit"
proof -
  have "valid_time (now - j * iv * 60 * 1000)" if j: "0 \<le> j" "j \<le> limit - 1" for j
  proof -
    from j oldest have o: "valid_time (now - (limit - 1) * iv * 60 * 1000)" by auto
    have n: "valid_time now" using clock by (simp add: valid_time_def)
    have "j * iv \<le> (limit - 1) * iv" using j iv by (simp add: mult_right_mono)
    then have "now - (limit - 1) * iv * 60 * 1000 \<le> now - j * iv * 60 * 1000" by simp
    moreover have "0 \<le> j * iv" using j iv by simp
    then have "now - j * iv * 60 * 1000 \<le> now" by simp
    ultimately show ?thesis using valid_between[OF o n] by blast
  qed
  then have "\<forall>j. 0 \<le> j \<and> j \<le> limit - 1 \<longrightarrow> valid_time (now - j * iv * 60 * 1000)" by blast
  from intraday_rounds_length[OF this, of rnd limit "base_price s m" "[]"]
  show ?thesis by (simp add: generateFallbackIntradaySeries_def)
qed

lemma intraday_case_returns:
  assumes clock: "0 \<le> h_now h" "h_now h \<le> 8640000000000000" and safe: "intraday_stamps_valid h ev"
  shows "\<not> isl (intraday_case h ev raw mapped m)"
proof -
  define limit where "limit = intraday_limit (query_param ev ''limit'')"
  define interval where "interval = (case query_param ev ''interval'' of None \<Rightarrow> ''5min'' | Some s \<Rightarrow> s)"
  define iv where "iv = parseIntervalMinutes interval"
  from safe have "limit \<le> 0 \<or> valid_time (h_now h - (limit - 1) * iv * 60 * 1000)"
    by (simp add: intraday_stamps_valid_def Let_def limit_def iv_def interval_def)
  from generateFallbackIntradaySeries_length[OF clock parseIntervalMinutes_pos[of interval, folded iv_def] this]
  obtain bars where "generateFallbackIntradaySeries (h_random h) (h_now h) raw mapped limit iv = Inr bars"
    by blast
  then show ?thesis
    by (cases "no_rows (fst (intraday_live_part h mapped limit interval iv m))")
       (simp_all add: intraday_case_def Let_def limit_def[symmetric] interval_def[symmetric]
          iv_def[symmetric])
qed

lemma eod_case_returns:
  assumes clock: "0 \<le> h_now h" "h_now h \<le> 8640000000000000"
  shows "\<not> isl (eod_case h ev raw mapped m)"
proof -
  define limit where "limit = eod_limit (query_param ev ''limit'')"
  have "limit \<le> 365" by (simp add: limit_def eod_limit_def clamp_limit_le)
  from generateFallbackDailySeries_length[OF clock this]
  obtain bars where "generateFallbackDailySeries (h_random h) (h_now h) raw mapped limit = Inr bars"
    by blast
  then show ?thesis
    by (cases "no_rows (fst (eod_live_part h mapped limit m))")
       (simp_all add: eod_case_def Let_def limit_def[symmetric])
qed

lemma switch_kind_returns:
  assumes clock: "0 \<le> h_now h" "h_now h \<le> 8640000000000000"
    and safe: "kind = ''intraday'' \<longrightarrow> intraday_stamps_valid h ev"
  shows "\<not> isl (switch_kind h ev kind raw mapped m)"
proof -
  consider "kind = ''intraday''" | "kind = ''eod''" | "kind \<noteq> ''intraday''" "kind \<noteq> ''eod''"
    by blast
  then show ?thesis
  proof cases
    case 1
    with safe intraday_case_returns[OF clock, of ev raw mapped m] show ?thesis
      by (simp add: switch_kind_def)
  next
    case 2
    with eod_case_returns[OF clock, of ev raw mapped m] show ?thesis
      by (simp add: switch_kind_def)
  next
    case 3
    then show ?thesis by (simp add: switch_kind_def)
  qed
qed

lemma applyFallback_kind [simp]: "m_kind (applyFallback m s f r) = m_kind m"
  by (simp add: applyFallback_def)

lemma quote_case_kind: "m_kind (fst (snd (quote_case h raw mapped m))) = m_kind m"
  by (simp add: quote_case_def split: option.splits prod.splits sum.splits)

lemma intraday_live_part_kind:
  "m_kind (fst (snd (intraday_live_part h mapped limit interval iv m))) = m_kind m"
  by (simp add: intraday_live_part_def split: option.splits prod.splits sum.splits)

lemma eod_live_part_kind:
  "m_kind (fst (snd (eod_live_part h mapped limit m))) = m_kind m"
  by (simp add: eod_live_part_def split: option.splits prod.splits sum.splits)

lemma intraday_case_kind:
  "intraday_case h ev raw mapped m = Inr out \<Longrightarrow> m_kind (fst (snd out)) = m_kind m"
  by (auto simp: intraday_case_def Let_def intraday_live_part_kind split: if_splits sum.splits)

lemma eod_case_kind:
  "eod_case h ev raw mapped m = Inr out \<Longrightarrow> m_kind (fst (snd out)) = m_kind m"
  by (auto simp: eod_case_def Let_def eod_live_part_kind split: if_splits sum.splits)

lemma switch_kind_kind:
  "switch_kind h ev kind raw mapped m = Inr out \<Longrightarrow> m_kind (fst (snd out)) = m_kind m"
  by (auto simp: switch_kind_def quote_case_kind intraday_case_kind eod_case_kind
      documents_case_def default_case_def split: if_splits option.splits)

lemma respond_fields:
  "statusCode (fst (respond raw mapped out)) = 200"
  "body (fst (respond raw mapped out)) =
     Envelope \<lparr> r_originalSymbol = toUpperCase raw, r_mappedSymbol = mapped,
                r_symbol = toUpperCase raw, r_data = fst out, r_meta = fst (snd out),
                r_warning = (if fst (snd (snd out)) \<noteq> [] then Some (fst (snd (snd out))) else None) \<rparr>"
  "snd (respond raw mapped out) = snd (snd (snd out))"
  by (simp_all add: respond_def split: prod.splits)

lemma news_request_facts:
  "httpMethod news_request \<noteq> ''OPTIONS''" "request_symbol news_request = ''AAPL''"
  "request_kind news_request = ''news''" "request_kind news_request \<in> set document_kinds"
  by (code_simp+)

lemma intraday_request_facts:
  "httpMethod intraday_request \<noteq> ''OPTIONS''" "request_symbol intraday_request = ''AAPL''"
  "request_kind intraday_request = ''intraday''" "intraday_stamps_valid quiet_host intraday_request"
  "0 \<le> h_now quiet_host" "h_now quiet_host \<le> 8640000000000000"
  by (code_simp+)

lemma wide_interval_request_facts:
  "httpMethod wide_interval_request \<noteq> ''OPTIONS''" "request_symbol wide_interval_request = ''AAPL''"
  "request_kind wide_interval_request = ''intraday''"
  "intraday_limit (query_param wide_interval_request ''limit'') = 2"
  "query_param wide_interval_request ''interval'' = Some ''1000000000000000min''"
  "parseIntervalMinutes ''1000000000000000min'' = 1000000000000000"
  "truthy_token quiet_host = None" "h_now quiet_host = 1700000000000"
  by (code_simp+)

lemma keyed_host_token: "truthy_token keyed_host \<noteq> None"
  by code_simp

lemma handler_documents:
  assumes "httpMethod ev \<noteq> ''OPTIONS''" and "request_symbol ev \<noteq> []"
    and "request_kind ev \<in> set document_kinds"
  shows "handler h ev =
           Inr (respond (request_symbol ev) (mapSymbolForAPI (request_symbol ev))
                  (documents_case h
                     (initial_meta h (request_kind ev) (mapSymbolForAPI (request_symbol ev)))))"
proof -
  from assms(3)
  have "switch_kind h ev (request_kind ev) (request_symbol ev) (mapSymbolForAPI (request_symbol ev))
          (initial_meta h (request_kind ev) (mapSymbolForAPI (request_symbol ev))) =
        Inr (documents_case h (initial_meta h (request_kind ev) (mapSymbolForAPI (request_symbol ev))))"
    by (auto simp: switch_kind_def document_kinds_def)
  with assms(1,2) show ?thesis by (simp add: handler_switch)
qed

lemma switch_kind_missing_token:
  assumes "truthy_token h = None" and "kind \<notin> set document_kinds"
    and "switch_kind h ev kind raw mapped m = Inr out"
  shows "fst (snd (snd out)) \<noteq> [] \<and> m_reason (fst (snd out)) \<noteq> ''ok''"
  using assms
  by (auto simp: switch_kind_def quote_case_def intraday_case_def eod_case_def default_case_def
      intraday_live_part_def eod_live_part_def applyFallback_def no_rows_def Let_def
      split: if_splits sum.splits)

lemma missing_token_warned:
  assumes "truthy_token h = None" and "httpMethod ev \<noteq> ''OPTIONS''"
    and "request_symbol ev \<noteq> []" and "request_kind ev \<notin> set document_kinds"
    and "handler h ev = Inr (resp, reqs)"
  shows "\<exists>env w. body resp = Envelope env \<and> r_warning env = Some w \<and> w \<noteq> [] \<and>
           m_reason (r_meta env) \<noteq> ''ok''"
proof -
  let ?m = "initial_meta h (request_kind ev) (mapSymbolForAPI (request_symbol ev))"
  let ?sw = "switch_kind h ev (request_kind ev) (request_symbol ev)
               (mapSymbolForAPI (request_symbol ev)) ?m"
  from assms(5) obtain out where sw: "?sw = Inr out"
    and r: "(resp, reqs) = respond (request_symbol ev) (mapSymbolForAPI (request_symbol ev)) out"
    unfolding handler_switch[OF assms(2,3)] by (cases ?sw) auto
  from r have "body resp =
      body (fst (respond (request_symbol ev) (mapSymbolForAPI (request_symbol ev)) out))"
    by (metis fst_conv)
  with switch_kind_missing_token[OF assms(1,4) sw] show ?thesis
    by (simp add: respond_fields)
qed

subsection \<open>C1: the statuses of the handler\<close>

text \<open>
  C1 (amended), for the handler with the fallbacks (functions/tiingo.js). Let the clock
  read a time at or after the epoch and at most the largest valid date and, when the kind
  is \<open>intraday\<close>, let the oldest time stamp of a synthetic series be a valid date as
  well. Then the handler returns a response. An \<open>OPTIONS\<close> request is answered 200 with
  an empty body, whatever its parameters. Any other request is answered 400, with the
  error \<open>Missing symbol parameter\<close>, exactly when its symbol is missing or empty after
  trimming; otherwise it is answered 200 with an envelope that carries a meta object with
  the kind of the request and, for a symbol whose upper-case form stays in Latin-1, the
  symbol in upper case and the mapped symbol. This holds whether or not a token is
  configured, whatever the provider replies or fails to reply, and for every kind.
\<close>

theorem C1_handler_status:
  assumes clock: "0 \<le> h_now h" "h_now h \<le> 8640000000000000"
    and safe: "request_kind ev = ''intraday'' \<longrightarrow> intraday_stamps_valid h ev"
  shows "\<exists>resp reqs. handler h ev = Inr (resp, reqs) \<and>
           (if httpMethod ev = ''OPTIONS'' then statusCode resp = 200 \<and> body resp = EmptyBody
            else if request_symbol ev = []
              then statusCode resp = 400 \<and> body resp = ErrorBody ''Missing symbol parameter''
            else statusCode resp = 200 \<and>
                 (\<exists>env. body resp = Envelope env \<and>
                    m_kind (r_meta env) = request_kind ev \<and>
                    (upper_in_latin1 (request_symbol ev) \<longrightarrow>
                       r_symbol env = toUpperCase (request_symbol ev) \<and>
                       r_mappedSymbol env = mapSymbolForAPI (request_symbol ev))))"
proof (cases "httpMethod ev = ''OPTIONS''")
  case True
  then show ?thesis by (simp add: handler_options)
next
  case opt: False
  show ?thesis
  proof (cases "request_symbol ev = []")
    case True
    with opt show ?thesis by (simp add: handler_missing_symbol)
  next
    case sym: False
    define raw where "raw = request_symbol ev"
    define mapped where "mapped = mapSymbolForAPI raw"
    define m where "m = initial_meta h (request_kind ev) mapped"
    from switch_kind_returns[OF clock safe, of raw mapped m]
    obtain out where out: "switch_kind h ev (request_kind ev) raw mapped m = Inr out"
      by (cases "switch_kind h ev (request_kind ev) raw mapped m") auto
    have k: "m_kind (fst (snd out)) = request_kind ev"
      using switch_kind_kind[OF out] by (simp add: m_def initial_meta_def)
    have h: "handler h ev = Inr (respond raw mapped out)"
      using opt sym out by (simp add: handler_switch raw_def mapped_def m_def)
    obtain resp reqs where r: "respond raw mapped out = (resp, reqs)" by force
    from respond_fields(1,2)[of raw mapped out] r
    have "statusCode resp = 200"
      "body resp = Envelope \<lparr> r_originalSymbol = toUpperCase raw, r_mappedSymbol = mapped,
                r_symbol = toUpperCase raw, r_data = fst out, r_meta = fst (snd out),
                r_warning = (if fst (snd (snd out)) \<noteq> [] then Some (fst (snd (snd out))) else None) \<rparr>"
      by simp_all
    with h r k opt sym show ?thesis by (simp add: raw_def mapped_def)
  qed
qed

text \<open>
  A request for an intraday series without a token: the default limit and interval keep
  every time stamp in range.
\<close>

theorem C1_witness:
  "0 \<le> h_now quiet_host \<and> h_now quiet_host \<le> 8640000000000000 \<and>
   request_kind intraday_request = ''intraday'' \<and> intraday_stamps_valid quiet_host intraday_request \<and>
   httpMethod intraday_request \<noteq> ''OPTIONS'' \<and> request_symbol intraday_request \<noteq> [] \<and>
   upper_in_latin1 (request_symbol intraday_request) \<and>
   (\<exists>resp reqs env. handler quiet_host intraday_request = Inr (resp, reqs) \<and> statusCode resp = 200 \<and>
      body resp = Envelope env \<and> r_symbol env = ''AAPL'' \<and> m_kind (r_meta env) = ''intraday'')"
proof -
  have safe: "request_kind intraday_request = ''intraday'' \<longrightarrow>
              intraday_stamps_valid quiet_host intraday_request"
    by (simp add: intraday_request_facts)
  have up: "toUpperCase ''AAPL'' = ''AAPL''" "upper_in_latin1 ''AAPL''" by code_simp+
  from C1_handler_status[OF intraday_request_facts(5,6) safe]
  obtain resp reqs where r: "handler quiet_host intraday_request = Inr (resp, reqs)"
    "statusCode resp = 200 \<and>
       (\<exists>env. body resp = Envelope env \<and>
          m_kind (r_meta env) = request_kind intraday_request \<and>
          (upper_in_latin1 (request_symbol intraday_request) \<longrightarrow>
             r_symbol env = toUpperCase (request_symbol intraday_request) \<and>
             r_mappedSymbol env = mapSymbolForAPI (request_symbol intraday_request)))"
    by (auto simp: intraday_request_facts)
  then obtain env where "body resp = Envelope env" "r_symbol env = ''AAPL''"
    "m_kind (r_meta env) = ''intraday''"
    by (auto simp: intraday_request_facts up)
  with r intraday_request_facts up show ?thesis by auto
qed

text \<open>
  Against C1 as stated: a preflight request has no symbol and is answered 200 with an
  empty body; and the handler of tiingo-data.js answers a request with a symbol, made
  without a token, with status 500.
\<close>

theorem C1_counterexample:
  "request_symbol preflight_request = [] \<and>
   handler quiet_host preflight_request =
     Inr (\<lparr> statusCode = 200, headers = baseHeaders, body = EmptyBody \<rparr>, []) \<and>
   request_symbol quote_request = ''AAPL'' \<and>
   statusCode8 (fst (handler_data quiet_host quote_request)) = 500 \<and>
   body8 (fst (handler_data quiet_host quote_request)) = ErrorBody8 ''TIINGO_KEY not configured''"
proof -
  have "request_symbol preflight_request = []" "request_symbol quote_request = ''AAPL''"
    "statusCode8 (fst (handler_data quiet_host quote_request)) = 500"
    "body8 (fst (handler_data quiet_host quote_request)) = ErrorBody8 ''TIINGO_KEY not configured''"
    by (code_simp+)
  moreover have "handler quiet_host preflight_request =
     Inr (\<lparr> statusCode = 200, headers = baseHeaders, body = EmptyBody \<rparr>, [])"
    by (rule handler_options) (simp add: preflight_request_def)
  ultimately show ?thesis by simp
qed

subsection \<open>C10: the document kinds\<close>

text \<open>
  C10. For a request, other than a preflight, with a non-empty symbol and one of the kinds
  \<open>news\<close>, \<open>documents\<close>, \<open>actions\<close>, \<open>filings\<close> and \<open>statements\<close>, the handler answers 200
  with an empty array as data and issues no request to the provider, on every host; and
  when a token is configured the meta object has source \<open>live\<close> and reason \<open>ok\<close>, and the
  envelope has no warning.
\<close>

theorem C10_document_kinds:
  assumes "httpMethod ev \<noteq> ''OPTIONS''" and "request_symbol ev \<noteq> []"
    and "request_kind ev \<in> set document_kinds"
  shows "\<exists>resp env. handler h ev = Inr (resp, []) \<and> statusCode resp = 200 \<and>
           body resp = Envelope env \<and> r_data env = Items [] \<and>
           (truthy_token h \<noteq> None \<longrightarrow>
              m_source (r_meta env) = ''live'' \<and> m_reason (r_meta env) = ''ok'' \<and>
              r_warning env = None)"
  unfolding handler_documents[OF assms]
  by (auto simp: respond_def documents_case_def initial_meta_def split: option.splits)

text \<open>A request for news on a host with a token.\<close>

theorem C10_witness:
  "httpMethod news_request \<noteq> ''OPTIONS'' \<and> request_symbol news_request \<noteq> [] \<and>
   request_kind news_request \<in> set document_kinds \<and> truthy_token keyed_host \<noteq> None \<and>
   (\<exists>resp env. handler keyed_host news_request = Inr (resp, []) \<and> statusCode resp = 200 \<and>
      body resp = Envelope env \<and> r_data env = Items [] \<and>
      m_source (r_meta env) = ''live'' \<and> m_reason (r_meta env) = ''ok'' \<and> r_warning env = None)"
proof -
  have ne: "request_symbol news_request \<noteq> []" by (simp add: news_request_facts)
  from C10_document_kinds[OF news_request_facts(1) ne news_request_facts(4), of keyed_host]
    keyed_host_token news_request_facts(1,4) ne
  show ?thesis by blast
qed

subsection \<open>C3: requests without a credential\<close>

text \<open>
  C3 fails on the document kinds. Without a token, a request for the news of \<open>AAPL\<close> is
  answered with an envelope whose meta object has reason \<open>fallback\<close>, whose data is the
  empty array, and that has no warning. Every other kind gets a warning in this situation
  (\<open>missing_token_warned\<close>).
\<close>

theorem C3_news_without_warning:
  "truthy_token quiet_host = None \<and> request_symbol news_request = ''AAPL'' \<and>
   request_kind news_request = ''news'' \<and>
   map_option r_warning (envelope_of (handler quiet_host news_request)) = Some None \<and>
   map_option (\<lambda>env. m_reason (r_meta env)) (envelope_of (handler quiet_host news_request)) =
     Some ''fallback'' \<and>
   map_option r_data (envelope_of (handler quiet_host news_request)) = Some (Items [])"
proof -
  have ne: "request_symbol news_request \<noteq> []" by (simp add: news_request_facts)
  have t: "truthy_token quiet_host = None" by code_simp
  show ?thesis
    unfolding handler_documents[OF news_request_facts(1) ne news_request_facts(4)]
    by (simp add: t news_request_facts envelope_of_def respond_def documents_case_def initial_meta_def)
qed

subsection \<open>C5: the length of the synthetic series\<close>

text \<open>
  C5 fails for the intraday generator. With limit 2, which is positive and below the
  maximum of 300, and an interval of \<open>1000000000000000\<close> minutes, the first time stamp is
  outside the range of valid dates and its \<open>toISOString\<close> throws: the generator returns no
  series, and the handler, which calls it outside any \<open>try\<close>, is left by the exception on
  the request \<open>?symbol=AAPL&kind=intraday&limit=2&interval=1000000000000000min\<close>.
\<close>

theorem C5_series_throws:
  "parseIntervalMinutes ''1000000000000000min'' = 1000000000000000 \<and>
   intraday_limit (Some ''2'') = 2 \<and>
   generateFallbackIntradaySeries (\<lambda>i. 1 / 2) 1700000000000 ''AAPL'' ''AAPL'' 2 1000000000000000 =
     Inl (RangeError ''Invalid time value'') \<and>
   handler quiet_host wide_interval_request = Inl (RangeError ''Invalid time value'')"
proof -
  have a: "parseIntervalMinutes ''1000000000000000min'' = 1000000000000000"
    "intraday_limit (Some ''2'') = 2"
    by (code_simp+)
  have g: "generateFallbackIntradaySeries rnd 1700000000000 s m 2 1000000000000000 =
     Inl (RangeError ''Invalid time value'')" for rnd s m
    by (simp add: generateFallbackIntradaySeries_def intraday_rounds.simps valid_time_def)
  have ne: "request_symbol wide_interval_request \<noteq> []" by (simp add: wide_interval_request_facts)
  have "handler quiet_host wide_interval_request = Inl (RangeError ''Invalid time value'')"
    unfolding handler_switch[OF wide_interval_request_facts(1) ne]
    by (simp add: wide_interval_request_facts switch_kind_def intraday_case_def Let_def
        intraday_live_part_def no_rows_def g)
  with a g show ?thesis by simp
qed

end
